theory Spec2Isabelle
  imports Main "HOL-Library.Multiset"
begin

section \<open>The Python runtime the generator runs on\<close>

text \<open>
  Strings are \<open>string\<close>, standing for the UTF-8 encoding of the Python \<open>str\<close>: the few
  non-ASCII characters of the English templates are written as their bytes. Substring
  test, \<open>startswith\<close> and concatenation on valid UTF-8 agree with the same operations on
  code points.

  The generator receives a \<open>random.Random\<close> instance. Its state is a value of an arbitrary
  type \<open>'s\<close>, threaded through every call; the methods of the instance that the source
  calls are built from the primitives of the record \<open>runtime\<close>, which are parameters of
  the whole development:
  \<^item> \<open>draw n s\<close> is the number behind \<open>_randbelow(n)\<close> in state \<open>s\<close> and the next state;
  \<^item> \<open>coin s\<close> is the outcome of the test \<open>rng.random() < 0.5\<close> and the next state;
  \<^item> \<open>seeded k\<close> is the state of \<open>random.Random(k)\<close> for an integer seed \<open>k\<close>;
  \<^item> \<open>lower\<close> is \<open>str.lower\<close>.
\<close>

datatype error = IndexError

record 's runtime =
  draw :: "nat \<Rightarrow> 's \<Rightarrow> nat \<times> 's"
  coin :: "'s \<Rightarrow> bool \<times> 's"
  seeded :: "int \<Rightarrow> 's"
  lower :: "string \<Rightarrow> string"

text \<open>\<open>_randbelow(n)\<close> returns a number below \<open>n\<close>: the raw draw is reduced modulo \<open>n\<close>,
  which changes no draw that is already in range.\<close>

definition randbelow :: "'s runtime \<Rightarrow> nat \<Rightarrow> 's \<Rightarrow> nat \<times> 's" where
  "randbelow rt n s = (case draw rt n s of (r, s') \<Rightarrow> (r mod n, s'))"

text \<open>Computations that read and advance the generator and may raise.\<close>

type_synonym ('s, 'a) rand = "'s \<Rightarrow> error + ('a \<times> 's)"

definition ret :: "'a \<Rightarrow> ('s, 'a) rand" where
  "ret x s = Inr (x, s)"

definition bnd :: "('s, 'a) rand \<Rightarrow> ('a \<Rightarrow> ('s, 'b) rand) \<Rightarrow> ('s, 'b) rand" where
  "bnd m f s = (case m s of Inl e \<Rightarrow> Inl e | Inr (x, s') \<Rightarrow> f x s')"

definition lift :: "('s \<Rightarrow> 'a \<times> 's) \<Rightarrow> ('s, 'a) rand" where
  "lift f s = Inr (f s)"

text \<open>\<open>for x in xs: ...; out.append(y)\<close>\<close>

fun for_each :: "'b list \<Rightarrow> ('b \<Rightarrow> ('s, 'a) rand) \<Rightarrow> ('s, 'a list) rand" where
  "for_each [] f = ret []"
| "for_each (x # xs) f = bnd (f x) (\<lambda>y. bnd (for_each xs f) (\<lambda>ys. ret (y # ys)))"

text \<open>\<open>rng.choice(seq)\<close>: \<open>seq[_randbelow(len(seq))]\<close>, IndexError on an empty sequence.\<close>

definition choice :: "'s runtime \<Rightarrow> 'a list \<Rightarrow> ('s, 'a) rand" where
  "choice rt xs s =
     (if xs = [] then Inl IndexError
      else case randbelow rt (length xs) s of (j, s') \<Rightarrow> Inr (xs ! j, s'))"

text \<open>\<open>rng.randrange(start, stop)\<close> with \<open>start < stop\<close>.\<close>

definition randrange :: "'s runtime \<Rightarrow> nat \<Rightarrow> nat \<Rightarrow> 's \<Rightarrow> nat \<times> 's" where
  "randrange rt start stop s = (case randbelow rt (stop - start) s of (r, s') \<Rightarrow> (start + r, s'))"

text \<open>\<open>x[i], x[j] = x[j], x[i]\<close>\<close>

definition swap :: "'a list \<Rightarrow> nat \<Rightarrow> nat \<Rightarrow> 'a list" where
  "swap xs i j = (xs[i := xs ! j])[j := xs ! i]"

text \<open>\<open>rng.shuffle(x)\<close>: for \<open>i\<close> from \<open>len(x) - 1\<close> down to \<open>1\<close>, swap \<open>x[i]\<close> with
  \<open>x[_randbelow(i + 1)]\<close>. Both indices are below \<open>len(x)\<close>.\<close>

definition shuffle_step :: "'s runtime \<Rightarrow> nat \<Rightarrow> 'a list \<times> 's \<Rightarrow> 'a list \<times> 's" where
  "shuffle_step rt i = (\<lambda>(xs, s). case randbelow rt (i + 1) s of (j, s') \<Rightarrow> (swap xs i j, s'))"

definition shuffle :: "'s runtime \<Rightarrow> 'a list \<Rightarrow> 's \<Rightarrow> 'a list \<times> 's" where
  "shuffle rt xs s = fold (shuffle_step rt) (rev [1..<length xs]) (xs, s)"

section \<open>Answer labeler\<close>

text \<open>\<open>chr(ord('A') + i)\<close>\<close>

definition letter :: "nat \<Rightarrow> char" where
  "letter i = char_of (65 + i)"

text \<open>The body of the loop of \<open>_label_options\<close> over \<open>enumerate(idxs)\<close>; the state is
  \<open>(labeled, answer_letter)\<close>. Every \<open>idx\<close> comes from a shuffled \<open>range(len(options_plain))\<close>,
  so \<open>options_plain[idx]\<close> is in range (lemma \<open>shuffle_range_set\<close>).\<close>

definition label_step :: "string list \<Rightarrow> nat \<Rightarrow> nat \<times> nat \<Rightarrow> string list \<times> string \<Rightarrow> string list \<times> string" where
  "label_step options_plain correct_index = (\<lambda>(i, idx) (labeled, answer_letter).
     (labeled @ [letter i # ''. '' @ options_plain ! idx],
      if idx = correct_index then [letter i] else answer_letter))"

definition label_options :: "'s runtime \<Rightarrow> string list \<Rightarrow> nat \<Rightarrow> 's \<Rightarrow> (string list \<times> string) \<times> 's" where
  "label_options rt options_plain correct_index s =
     (case shuffle rt [0..<length options_plain] s of
        (idxs, s') \<Rightarrow>
          (fold (label_step options_plain correct_index) (enumerate 0 idxs) ([], ''A''), s'))"


section \<open>Data model\<close>

text \<open>The Japanese rationale texts of the source are never inspected by the code. Each
  literal is represented by one token \<open>Ja key\<close>, the key naming the archetype (or the
  place) that carries the literal, and a text built from several literals by the list of
  their tokens.\<close>

datatype ja = Ja string

type_synonym jtext = "ja list"

record multi_blank =
  multiBlanks :: bool
  blankCount :: nat
  blankIndex :: nat
  blankOptionsLabeled :: "string list list"
  blankAnswerLetters :: "string list"
  blankNotes :: "jtext list"
  groupId :: string

text \<open>The \<open>context\<close> object of a question: \<open>{"text": ...}\<close>, the same with the multi-blank
  keys added, or \<open>{"passage": ...}\<close>.\<close>

datatype ctx = Text string | MultiBlank string multi_blank | Passage string

record question =
  qid :: string
  stem :: "string option"
  ctx :: "ctx option"
  options :: "string list"
  answer :: string
  explanationJa :: jtext

record part_block =
  part :: int
  name :: string
  instructions :: string
  questions :: "question list"

record dataset =
  title :: string
  version :: string
  language :: string
  explanationsLanguage :: string
  createdAt :: string
  parts :: "part_block list"
  metadata_noteJa :: jtext

text \<open>What an archetype function returns: text, plain options, correct index, rationale.\<close>

type_synonym archetype = "string \<times> string list \<times> nat \<times> jtext"

text \<open>\<open>str(n)\<close> for a natural number, as the f-strings of the identifiers print it.\<close>

fun str_nat :: "nat \<Rightarrow> string" where
  "str_nat n =
     (if n < 10 then [''0123456789'' ! n]
      else str_nat (n div 10) @ [''0123456789'' ! (n mod 10)])"

declare str_nat.simps [simp del]

text \<open>\<open>s.startswith(p)\<close>, \<open>m in s\<close>, \<open>sep.join(xs)\<close>\<close>

fun startswith :: "string \<Rightarrow> string \<Rightarrow> bool" where
  "startswith s [] = True"
| "startswith [] (p # ps) = False"
| "startswith (c # cs) (p # ps) = (c = p \<and> startswith cs ps)"

fun contains :: "string \<Rightarrow> string \<Rightarrow> bool" where
  "contains [] m = (m = [])"
| "contains (c # cs) m = (startswith (c # cs) m \<or> contains cs m)"

fun join :: "string \<Rightarrow> string list \<Rightarrow> string" where
  "join sep [] = []"
| "join sep [x] = x"
| "join sep (x # y # ys) = x @ sep @ join sep (y # ys)"

text \<open>The non-ASCII characters of the templates: the brackets of a blank marker
  (U+3010, U+3011), the em dash (U+2014) and the right single quotation mark (U+2019).\<close>

definition lb :: string where
  "lb = [CHR 0xE3, CHR 0x80, CHR 0x90]"

definition rb :: string where
  "rb = [CHR 0xE3, CHR 0x80, CHR 0x91]"

definition blank :: string where
  "blank = lb @ ''_____'' @ rb"

definition em_dash :: string where
  "em_dash = [CHR 0xE2, CHR 0x80, CHR 0x94]"

definition rsquo :: string where
  "rsquo = [CHR 0xE2, CHR 0x80, CHR 0x99]"

section \<open>Domain lexicon\<close>

record lexicon =
  nouns :: "string list"
  depts :: "string list"
  companies :: "string list"
  ad_item :: string

definition conf :: lexicon where
  "conf =
    \<lparr>nouns = [''report'', ''proposal'', ''contract'', ''shipment'', ''agenda'', ''policy''],
      depts = [''finance'', ''HR'', ''marketing'', ''IT'', ''operations''],
      companies = [''our company'', ''the vendor'', ''the client'', ''the committee'', ''the department''],
      ad_item = ''membership''\<rparr>"

definition table :: "(string \<times> lexicon) list" where
  "table = [
    (''it'',
     \<lparr>nouns = [''report'', ''ticket'', ''deployment'', ''release notes'', ''specification''],
      depts = [''IT'', ''QA'', ''security'', ''platform'', ''infrastructure''],
      companies = [''our team'', ''the vendor'', ''the client'', ''the committee'', ''the department''],
      ad_item = ''cloud backup plan''\<rparr>),
    (''manufacturing'',
     \<lparr>nouns = [''report'', ''proposal'', ''assembly plan'', ''maintenance log'', ''inspection record''],
      depts = [''production'', ''quality'', ''engineering'', ''logistics'', ''procurement''],
      companies = [''our factory'', ''the supplier'', ''the plant'', ''the committee'', ''the department''],
      ad_item = ''maintenance toolkit''\<rparr>),
    (''logistics'',
     \<lparr>nouns = [''shipment'', ''manifest'', ''waybill'', ''delivery schedule'', ''inventory report''],
      depts = [''operations'', ''dispatch'', ''warehouse'', ''customs'', ''fleet''],
      companies = [''our company'', ''the carrier'', ''the client'', ''the warehouse'', ''the department''],
      ad_item = ''express delivery option''\<rparr>),
    (''medical'',
     \<lparr>nouns = [''report'', ''consent form'', ''survey'', ''schedule'', ''policy''],
      depts = [''administration'', ''nursing'', ''billing'', ''pharmacy'', ''radiology''],
      companies = [''our clinic'', ''the hospital'', ''the lab'', ''the committee'', ''the department''],
      ad_item = ''health screening package''\<rparr>),
    (''finance'',
     \<lparr>nouns = [''invoice'', ''balance sheet'', ''statement'', ''budget'', ''ledger''],
      depts = [''accounting'', ''audit'', ''treasury'', ''compliance'', ''finance''],
      companies = [''our firm'', ''the client'', ''the bank'', ''the auditor'', ''the department''],
      ad_item = ''small-business loan consultation''\<rparr>),
    (''hr'',
     \<lparr>nouns = [''policy'', ''timesheet'', ''benefits form'', ''onboarding packet'', ''schedule''],
      depts = [''HR'', ''recruiting'', ''training'', ''payroll'', ''compliance''],
      companies = [''our HR team'', ''the recruiter'', ''the applicant'', ''the manager'', ''the department''],
      ad_item = ''employee wellness program''\<rparr>),
    (''marketing'',
     \<lparr>nouns = [''campaign brief'', ''press kit'', ''ad copy'', ''media plan'', ''newsletter''],
      depts = [''marketing'', ''PR'', ''design'', ''sales'', ''digital''],
      companies = [''our agency'', ''the client'', ''the sponsor'', ''the committee'', ''the department''],
      ad_item = ''social media analytics suite''\<rparr>),
    (''education'',
     \<lparr>nouns = [''syllabus'', ''schedule'', ''registration form'', ''survey'', ''policy''],
      depts = [''admissions'', ''student affairs'', ''faculty'', ''library'', ''IT''],
      companies = [''our school'', ''the university'', ''the department'', ''the committee'', ''the registrar''],
      ad_item = ''online course bundle''\<rparr>),
    (''hospitality'',
     \<lparr>nouns = [''reservation'', ''menu'', ''event order'', ''invoice'', ''policy''],
      depts = [''front desk'', ''housekeeping'', ''banquet'', ''kitchen'', ''sales''],
      companies = [''our hotel'', ''the restaurant'', ''the venue'', ''the concierge'', ''the department''],
      ad_item = ''seasonal dining plan''\<rparr>),
    (''retail'',
     \<lparr>nouns = [''inventory report'', ''price list'', ''return policy'', ''promotion'', ''invoice''],
      depts = [''store operations'', ''merchandising'', ''customer service'', ''logistics'', ''marketing''],
      companies = [''our store'', ''the supplier'', ''the warehouse'', ''the brand'', ''the department''],
      ad_item = ''loyalty membership''\<rparr>),
    (''realestate'',
     \<lparr>nouns = [''lease'', ''inspection report'', ''listing'', ''schedule'', ''policy''],
      depts = [''property'', ''leasing'', ''sales'', ''maintenance'', ''compliance''],
      companies = [''our agency'', ''the landlord'', ''the tenant'', ''the committee'', ''the department''],
      ad_item = ''open house tour''\<rparr>),
    (''energy'',
     \<lparr>nouns = [''maintenance log'', ''outage notice'', ''safety record'', ''inspection report'', ''proposal''],
      depts = [''operations'', ''maintenance'', ''safety'', ''compliance'', ''engineering''],
      companies = [''our utility'', ''the plant'', ''the contractor'', ''the committee'', ''the department''],
      ad_item = ''home energy audit''\<rparr>),
    (''legal'',
     \<lparr>nouns = [''contract'', ''brief'', ''case file'', ''policy'', ''notice''],
      depts = [''legal'', ''compliance'', ''litigation'', ''IP'', ''risk''],
      companies = [''our firm'', ''the client'', ''the court'', ''the committee'', ''the department''],
      ad_item = ''contract review service''\<rparr>),
    (''public'',
     \<lparr>nouns = [''notice'', ''agenda'', ''public comment'', ''policy'', ''survey''],
      depts = [''city council'', ''planning'', ''public works'', ''transport'', ''parks''],
      companies = [''the city'', ''the county'', ''the agency'', ''the board'', ''the department''],
      ad_item = ''community workshop''\<rparr>),
    (''aviation'',
     \<lparr>nouns = [''itinerary'', ''boarding pass'', ''notice'', ''schedule'', ''policy''],
      depts = [''operations'', ''ground staff'', ''security'', ''maintenance'', ''customer service''],
      companies = [''our airline'', ''the airport'', ''the carrier'', ''the authority'', ''the department''],
      ad_item = ''priority boarding option''\<rparr>),
    (''food'',
     \<lparr>nouns = [''menu'', ''invoice'', ''reservation'', ''order'', ''policy''],
      depts = [''kitchen'', ''service'', ''banquet'', ''procurement'', ''marketing''],
      companies = [''our cafe'', ''the restaurant'', ''the supplier'', ''the committee'', ''the department''],
      ad_item = ''meal subscription plan''\<rparr>),
    (''construction'',
     \<lparr>nouns = [''inspection report'', ''work order'', ''proposal'', ''schedule'', ''permit''],
      depts = [''site'', ''engineering'', ''procurement'', ''safety'', ''logistics''],
      companies = [''our contractor'', ''the client'', ''the vendor'', ''the council'', ''the department''],
      ad_item = ''equipment rental package''\<rparr>),
    (''ecommerce'',
     \<lparr>nouns = [''order'', ''return label'', ''invoice'', ''promotion'', ''inventory''],
      depts = [''fulfillment'', ''customer support'', ''marketing'', ''IT'', ''analytics''],
      companies = [''our shop'', ''the marketplace'', ''the seller'', ''the brand'', ''the department''],
      ad_item = ''free shipping upgrade''\<rparr>),
    (''support'',
     \<lparr>nouns = [''ticket'', ''knowledge base'', ''policy'', ''survey'', ''SLA''],
      depts = [''support'', ''success'', ''training'', ''QA'', ''IT''],
      companies = [''our support team'', ''the client'', ''the vendor'', ''the department'', ''the committee''],
      ad_item = ''premium support plan''\<rparr>)]"


text \<open>\<open>conf.update(table.get(d, {}))\<close>: every entry of the table has all four keys (and the
  keys of the table are distinct), so a hit replaces the whole default bundle.\<close>

definition domain_lex :: "'s runtime \<Rightarrow> string option \<Rightarrow> lexicon" where
  "domain_lex rt domain =
     (let d = lower rt (case domain of None \<Rightarrow> [] | Some x \<Rightarrow> x)
      in case map_of table d of None \<Rightarrow> conf | Some entry \<Rightarrow> entry)"

section \<open>Part 5: incomplete sentences\<close>

text \<open>The archetype functions are closures over \<open>rng\<close> and the lexicon lists; a list of
  them is a list of their names, and calling one is \<open>p5_run\<close>.\<close>

datatype p5_pattern =
    p5_preposition
  | p5_verb_form
  | p5_conjunction
  | p5_collocation
  | p5_comparative
  | p5_quantifiers
  | p5_time_prep
  | p5_phrasal_verb
  | p5_as_as
  | p5_pronoun_agreement
  | p5_subjunctive
  | p5_passive
  | p5_word_family
  | p5_relative_pronoun
  | p5_inversion
  | p5_parallelism
  | p5_articles
  | p5_count_uncount
  | p5_fewer_less
  | p5_conditional_third
  | p5_reported_speech
  | p5_adj_order
  | p5_infinitive_after_adj
  | p5_collocation_take_note

primrec p5_run :: "'s runtime \<Rightarrow> lexicon \<Rightarrow> p5_pattern \<Rightarrow> ('s, archetype) rand" where
  "p5_run rt lx p5_preposition =
     bnd (choice rt [''the online portal'', ''email'', ''the company website'', ''the shared drive'']) (\<lambda>obj.
       ret (''Employees are encouraged to submit feedback ______ '' @ obj @ ''.'',
        [''through'', ''among'', ''across'', ''under''],
        0, [Ja ''p5_preposition'']))"
| "p5_run rt lx p5_verb_form =
     bnd (choice rt (nouns lx)) (\<lambda>n.
       ret (''The manager approved the '' @ n @ '' after carefully ______ the costs.'',
        [''evaluating'', ''evaluated'', ''evaluation'', ''evaluates''],
        0, [Ja ''p5_verb_form'']))"
| "p5_run rt lx p5_conjunction =
     ret (''Our sales have increased steadily, ______ our market share remains small.'',
        [''although'', ''because'', ''unless'', ''so''],
        0, [Ja ''p5_conjunction''])"
| "p5_run rt lx p5_collocation =
     bnd (choice rt (depts lx)) (\<lambda>d.
       ret (''Please ______ the attached form to the '' @ d @ '' department by Friday.'',
        [''submit'', ''repair'', ''cancel'', ''extend''],
        0, [Ja ''p5_collocation'']))"
| "p5_run rt lx p5_comparative =
     ret (''This model is ______ than the previous version, making it ideal for travel.'',
        [''lighter'', ''lightest'', ''more light'', ''light''],
        0, [Ja ''p5_comparative''])"
| "p5_run rt lx p5_quantifiers =
     ret (''There are ______ opportunities for advancement in this department.'',
        [''a few'', ''few'', ''little'', ''a little''],
        0, [Ja ''p5_quantifiers''])"
| "p5_run rt lx p5_time_prep =
     ret (''The system will be down ______ two hours for maintenance.'',
        [''for'', ''since'', ''during'', ''at''],
        0, [Ja ''p5_time_prep''])"
| "p5_run rt lx p5_phrasal_verb =
     ret (''Due to scheduling conflicts, we'll ______ the meeting to next week.'',
        [''put off'', ''take off'', ''set off'', ''turn off''],
        0, [Ja ''p5_phrasal_verb''])"
| "p5_run rt lx p5_as_as =
     ret (''The new printer is as ______ as the old one.'',
        [''fast'', ''fastly'', ''faster'', ''more fast''],
        0, [Ja ''p5_as_as''])"
| "p5_run rt lx p5_pronoun_agreement =
     ret (''Each of the employees ______ responsible for safety training.'',
        [''is'', ''are'', ''be'', ''were''],
        0, [Ja ''p5_pronoun_agreement''])"
| "p5_run rt lx p5_subjunctive =
     ret (''It is essential that every member ______ the orientation on time.'',
        [''complete'', ''completes'', ''completed'', ''will complete''],
        0, [Ja ''p5_subjunctive''])"
| "p5_run rt lx p5_passive =
     bnd (choice rt (nouns lx)) (\<lambda>n.
       ret (''The '' @ n @ '' ______ by the end of the day.'',
        [''must be submitted'', ''must submit'', ''must be submitting'', ''must have submit''],
        0, [Ja ''p5_passive'']))"
| "p5_run rt lx p5_word_family =
     ret (''We need an ______ solution to reduce overall costs.'',
        [''economical'', ''economic'', ''economics'', ''economically''],
        0, [Ja ''p5_word_family''])"
| "p5_run rt lx p5_relative_pronoun =
     ret (''The report, ______ was finalized yesterday, will be shared with all staff.'',
        [''which'', ''that'', ''who'', ''whom''],
        0, [Ja ''p5_relative_pronoun''])"
| "p5_run rt lx p5_inversion =
     ret (''Only after the audit ______ the errors become apparent.'',
        [''did'', ''do'', ''does'', ''had''],
        0, [Ja ''p5_inversion''])"
| "p5_run rt lx p5_parallelism =
     ret (''The position requires managing budgets, coordinating schedules, and ______.'',
        [''communicating with stakeholders'', ''to communicate with stakeholders'', ''communication with stakeholders'', ''communicate with stakeholders''],
        0, [Ja ''p5_parallelism''])"
| "p5_run rt lx p5_articles =
     ret (''He is ______ experienced engineer.'',
        [''an'', ''a'', ''the'', ''(no article)''],
        0, [Ja ''p5_articles''])"
| "p5_run rt lx p5_count_uncount =
     ret (''We need more ______ to complete the project.'',
        [''equipment'', ''equipments'', ''equipmentes'', ''equipments are''],
        0, [Ja ''p5_count_uncount''])"
| "p5_run rt lx p5_fewer_less =
     ret (''We have ______ resources than last quarter.'',
        [''fewer'', ''less'', ''little'', ''few''],
        0, [Ja ''p5_fewer_less''])"
| "p5_run rt lx p5_conditional_third =
     ret (''If he ______ the report earlier, we could have fixed the issue.'',
        [''had sent'', ''sent'', ''has sent'', ''would send''],
        0, [Ja ''p5_conditional_third''])"
| "p5_run rt lx p5_reported_speech =
     ret (''She said she ______ the files by noon.'',
        [''would send'', ''will send'', ''sends'', ''is sending''],
        0, [Ja ''p5_reported_speech''])"
| "p5_run rt lx p5_adj_order =
     ret (''She bought a ______ laptop for travel.'',
        [''lightweight new'', ''new lightweight'', ''new and lightweight'', ''lightweight of new''],
        1, [Ja ''p5_adj_order''])"
| "p5_run rt lx p5_infinitive_after_adj =
     ret (''The task is easy ______.'',
        [''to complete'', ''completing'', ''to completing'', ''completed''],
        0, [Ja ''p5_infinitive_after_adj''])"
| "p5_run rt lx p5_collocation_take_note =
     ret (''Please take ______ of the new safety guidelines.'',
        [''note'', ''notes'', ''a note'', ''noting''],
        0, [Ja ''p5_collocation_take_note''])"


definition p5_all :: "p5_pattern list" where
  "p5_all =
     [p5_preposition, p5_verb_form, p5_conjunction, p5_collocation, p5_comparative,
      p5_quantifiers, p5_time_prep, p5_phrasal_verb, p5_as_as, p5_pronoun_agreement,
      p5_subjunctive, p5_passive, p5_word_family,
      p5_relative_pronoun, p5_inversion, p5_parallelism, p5_articles, p5_count_uncount,
      p5_fewer_less, p5_conditional_third, p5_reported_speech, p5_adj_order,
      p5_infinitive_after_adj, p5_collocation_take_note]"

definition p5_hard :: "p5_pattern list" where
  "p5_hard =
     [p5_verb_form, p5_conjunction, p5_subjunctive, p5_passive,
      p5_word_family, p5_pronoun_agreement, p5_comparative, p5_preposition]"

definition pattern_funcs :: "string option \<Rightarrow> p5_pattern list" where
  "pattern_funcs difficulty = (if difficulty = Some ''hard'' then p5_hard else p5_all)"

text \<open>One round of the loop of \<open>gen_part5\<close>, for the loop index \<open>i\<close>.\<close>

definition p5_question :: "'s runtime \<Rightarrow> lexicon \<Rightarrow> p5_pattern list \<Rightarrow> nat \<Rightarrow> ('s, question) rand" where
  "p5_question rt lx pool i =
     bnd (choice rt pool) (\<lambda>f.
     bnd (p5_run rt lx f) (\<lambda>(st, opts, correct_idx, note).
     bnd (lift (label_options rt opts correct_idx)) (\<lambda>(opts_labeled, ans).
     ret \<lparr>qid = ''G-P5-Q'' @ str_nat (i + 1), stem = Some st, ctx = None,
          options = opts_labeled, answer = ans, explanationJa = note\<rparr>)))"

definition gen_part5 ::
  "'s runtime \<Rightarrow> int \<Rightarrow> string option \<Rightarrow> string option \<Rightarrow> string option \<Rightarrow> ('s, part_block) rand" where
  "gen_part5 rt cnt difficulty genre domain =
     bnd (for_each [0..<nat cnt] (p5_question rt (domain_lex rt domain) (pattern_funcs difficulty)))
       (\<lambda>qs. ret \<lparr>part = 5, name = ''Incomplete Sentences'',
                  instructions = ''Choose the word or phrase that best completes the sentence.'',
                  questions = qs\<rparr>)"

section \<open>Part 6: text completion\<close>

text \<open>\<open>xs[i]\<close> for a computed index \<open>i \<ge> 0\<close>; \<open>ord(l) - ord('A')\<close> for a one-letter string.\<close>

definition index_at :: "'a list \<Rightarrow> nat \<Rightarrow> ('s, 'a) rand" where
  "index_at xs i s = (if i < length xs then Inr (xs ! i, s) else Inl IndexError)"

definition letter_index :: "string \<Rightarrow> nat" where
  "letter_index l = of_char (hd l) - 65"

text \<open>The text that \<open>paragraph_multi\<close> builds in \<open>base\<close> from the nouns of the lexicon
  and the number of blanks.\<close>

definition paragraph_text :: "string list \<Rightarrow> nat \<Rightarrow> string" where
  "paragraph_text ns blanks =
     (let base0 = ''To all staff, '' @ [CHR 10] @
                  ''We are updating procedures this month to improve efficiency. '';
          n1 = (if ns \<noteq> [] then ns ! 0 else ''forms'');
          n2 = (if length ns > 1 then ns ! 1 else ''reports'');
          base1 = base0 @ ''Please '' @ lb @ ''_____1'' @ rb @ '' the '' @ n1 @ '' and '' @
                  lb @ ''_____2'' @ rb @ '' the '' @ n2 @ '' by Friday. ''
      in if blanks = 3
         then base1 @ ''We also ask you to '' @ lb @ ''_____3'' @ rb @
              '' with your team to avoid delays.''
         else base1)"

text \<open>The lists \<open>blank_opts_plain\<close> and \<open>blank_correct_idx\<close> of \<open>paragraph_multi\<close>.\<close>

definition blank_opts_plain :: "nat \<Rightarrow> string list list" where
  "blank_opts_plain blanks =
     [[''submit'', ''repair'', ''cancel'', ''extend''],
      [''submit'', ''review'', ''cancel'', ''extend'']] @
     (if blanks = 3 then [[''coordinate'', ''communicate'', ''collaborate'', ''cooperate'']]
      else [])"

definition blank_correct_idx :: "nat \<Rightarrow> nat list" where
  "blank_correct_idx blanks = [0, 0] @ (if blanks = 3 then [0] else [])"

text \<open>\<open>paragraph_multi\<close>: the labelled options and the letter of blank 1 are returned as
  the options and the correct index of the archetype. The list \<open>blank_notes\<close> and the
  \<open>group_id\<close> of the source are computed and not returned; the draw of \<open>randrange\<close> for
  the latter advances the generator.\<close>

definition paragraph_multi_run :: "'s runtime \<Rightarrow> string option \<Rightarrow> ('s, archetype) rand" where
  "paragraph_multi_run rt domain =
     bnd (choice rt [2, 3]) (\<lambda>blanks.
     bnd (for_each [0..<blanks] (\<lambda>i.
            bnd (index_at (blank_opts_plain blanks) i) (\<lambda>o_plain.
            bnd (index_at (blank_correct_idx blanks) i) (\<lambda>c.
            lift (label_options rt o_plain c))))) (\<lambda>labeled.
     bnd (lift (randrange rt 1000000 9999999)) (\<lambda>group_number.
     bnd (index_at (map fst labeled) 0) (\<lambda>opts_for_first.
     bnd (index_at (map snd labeled) 0) (\<lambda>correct_letter_first.
     ret (paragraph_text (nouns (domain_lex rt domain)) blanks,
          opts_for_first, letter_index correct_letter_first,
          [Ja ''paragraph_multi'']))))))"

datatype p6_pattern =
    memo_type
  | notice_type
  | email_type
  | apology_type
  | plan_type
  | newsletter_type
  | ad_type
  | faq_type
  | paragraph_multi
  | outage_notice
  | invitation_type
  | confirmation_email
  | press_release
  | survey_announce
  | shipping_delay
  | followup_email
  | minutes_excerpt
  | policy_update2
  | product_recall
  | itinerary_snippet
  | manual_step

primrec p6_run :: "'s runtime \<Rightarrow> string option \<Rightarrow> p6_pattern \<Rightarrow> ('s, archetype) rand" where
  "p6_run rt domain memo_type =
     ret (''To all staff: Please '' @ blank @ '' your timesheets by Friday so payroll can be processed on time. Thank you.'',
        [''submit'', ''repair'', ''cancel'', ''extend''],
        0, [Ja ''memo_type''])"
| "p6_run rt domain notice_type =
     ret (''Reminder: The parking lot will be closed for cleaning this weekend. Please '' @ blank @ '' alternative arrangements.'',
        [''make'', ''made'', ''making'', ''to make''],
        0, [Ja ''notice_type''])"
| "p6_run rt domain email_type =
     ret (''Dear Customer, Your order has been shipped and should arrive '' @ blank @ '' three business days.'',
        [''within'', ''at'', ''on'', ''since''],
        0, [Ja ''email_type''])"
| "p6_run rt domain apology_type =
     ret (''We apologize for the delay in responding to your inquiry and appreciate your '' @ blank @ ''.'',
        [''patience'', ''patient'', ''patients'', ''patiently''],
        0, [Ja ''apology_type''])"
| "p6_run rt domain plan_type =
     ret (''Our company is '' @ blank @ '' a new line of eco-friendly packaging next quarter.'',
        [''launching'', ''launched'', ''to launch'', ''launch''],
        0, [Ja ''plan_type''])"
| "p6_run rt domain newsletter_type =
     ret (''Newsletter: The team will host a workshop next month. Please '' @ blank @ '' if you plan to attend.'',
        [''register'', ''registered'', ''registration'', ''to register''],
        0, [Ja ''newsletter_type''])"
| "p6_run rt domain ad_type =
     (let item = ad_item (domain_lex rt domain) in
      ret (''Advertisement: Sign up now and get 20% off '' @ item @ ''. Offer '' @ blank @ '' March 31.'',
        [''until'', ''since'', ''at'', ''on''],
        0, [Ja ''ad_type'']))"
| "p6_run rt domain faq_type =
     ret (''FAQ: Q) How can I reset my password? A) Please '' @ blank @ '' the instructions on the settings page.'',
        [''follow'', ''follows'', ''to follow'', ''following''],
        0, [Ja ''faq_type''])"
| "p6_run rt domain paragraph_multi = paragraph_multi_run rt domain"
| "p6_run rt domain outage_notice =
     ret (''Notice: The service will be unavailable from 2 a.m. to 4 a.m. Please '' @ blank @ '' accordingly.'',
        [''plan'', ''plans'', ''planning'', ''to plan''],
        0, [Ja ''outage_notice''])"
| "p6_run rt domain invitation_type =
     ret (''Invitation: You are invited to our product launch event. Please '' @ blank @ '' by May 5.'',
        [''RSVP'', ''RSVPs'', ''to RSVP'', ''RSVPed''],
        0, [Ja ''invitation_type''])"
| "p6_run rt domain confirmation_email =
     ret (''Email: Thank you for your request. We have '' @ blank @ '' your form and will contact you soon.'',
        [''received'', ''receive'', ''receiving'', ''to receive''],
        0, [Ja ''confirmation_email''])"
| "p6_run rt domain press_release =
     ret (''Press Release: Trendmore Inc. will launch a regional pilot next month. Please '' @ blank @ '' our website for details.'',
        [''see'', ''seeing'', ''to see'', ''saw''],
        0, [Ja ''press_release''])"
| "p6_run rt domain survey_announce =
     ret (''Survey: All employees are invited to '' @ blank @ '' the questionnaire by Friday.'',
        [''complete'', ''completed'', ''completing'', ''to complete''],
        0, [Ja ''survey_announce''])"
| "p6_run rt domain shipping_delay =
     ret (''Shipping Update: Your order is '' @ blank @ '' due to customs inspection.'',
        [''delayed'', ''delay'', ''delaying'', ''to delay''],
        0, [Ja ''shipping_delay''])"
| "p6_run rt domain followup_email =
     ret (''Email: Following up on our meeting, please '' @ blank @ '' the attached proposal.'',
        [''review'', ''reviews'', ''reviewing'', ''to review''],
        0, [Ja ''followup_email''])"
| "p6_run rt domain minutes_excerpt =
     ret (''Minutes: Mr. Cho '' @ blank @ '' the budget revisions; the team agreed to submit feedback by Tuesday.'',
        [''presented'', ''presents'', ''presenting'', ''to present''],
        0, [Ja ''minutes_excerpt''])"
| "p6_run rt domain policy_update2 =
     ret (''Policy Update: All visitors must '' @ blank @ '' at the front desk upon arrival.'',
        [''sign in'', ''sign on'', ''sign at'', ''sign up''],
        0, [Ja ''policy_update2''])"
| "p6_run rt domain product_recall =
     ret (''Recall Notice: If your unit shows signs of overheating, '' @ blank @ '' using it immediately.'',
        [''stop'', ''stops'', ''to stop'', ''stopped''],
        0, [Ja ''product_recall''])"
| "p6_run rt domain itinerary_snippet =
     ret (''Itinerary: Flight JK210 departs at 09:15 and '' @ blank @ '' at 12:45.'',
        [''arrives'', ''arrive'', ''arrived'', ''is arriving''],
        0, [Ja ''itinerary_snippet''])"
| "p6_run rt domain manual_step =
     ret (''Manual: To reset the device, '' @ blank @ '' the power button for ten seconds.'',
        [''hold'', ''holds'', ''to hold'', ''holding''],
        0, [Ja ''manual_step''])"

definition patterns :: "p6_pattern list" where
  "patterns =
     [memo_type, notice_type, email_type, apology_type, plan_type, newsletter_type, ad_type,
      faq_type, paragraph_multi] @
     [outage_notice, invitation_type, confirmation_email] @
     [press_release, survey_announce, shipping_delay, followup_email,
      minutes_excerpt, policy_update2, product_recall, itinerary_snippet, manual_step]"

text \<open>The extension of the context of a \<open>paragraph_multi\<close> question in \<open>gen_part6\<close>.\<close>

definition p6_multi_context ::
  "'s runtime \<Rightarrow> string \<Rightarrow> string list \<Rightarrow> string \<Rightarrow> jtext \<Rightarrow> ('s, ctx) rand" where
  "p6_multi_context rt text opts_labeled ans note =
     (let blanks = (if contains text (lb @ ''_____3'' @ rb) then 3 else 2 :: nat) in
      bnd (lift (label_options rt [''submit'', ''review'', ''cancel'', ''extend''] 0))
        (\<lambda>(opts2_labeled, ans2).
      bnd (if blanks = 3
           then lift (label_options rt
                  [''coordinate'', ''communicate'', ''collaborate'', ''cooperate''] 0)
           else ret ([], ''A'')) (\<lambda>(opts3_labeled, ans3).
      bnd (lift (randrange rt 1000000 9999999)) (\<lambda>group_number.
      ret (MultiBlank text
        \<lparr>multiBlanks = True,
         blankCount = blanks,
         blankIndex = 0,
         blankOptionsLabeled =
           [opts_labeled, opts2_labeled] @ (if blanks = 3 then [opts3_labeled] else []),
         blankAnswerLetters = [ans, ans2] @ (if blanks = 3 then [ans3] else []),
         blankNotes =
           [note, [Ja ''blank2'']] @ (if blanks = 3 then [[Ja ''blank3'']] else []),
         groupId = ''P6-'' @ str_nat group_number\<rparr>)))))"

definition p6_question :: "'s runtime \<Rightarrow> string option \<Rightarrow> nat \<Rightarrow> ('s, question) rand" where
  "p6_question rt domain i =
     bnd (choice rt patterns) (\<lambda>picked.
     bnd (p6_run rt domain picked) (\<lambda>(text, opts, correct_idx, note).
     bnd (lift (label_options rt opts correct_idx)) (\<lambda>(opts_labeled, ans).
     bnd (if picked = paragraph_multi
          then p6_multi_context rt text opts_labeled ans note
          else ret (Text text)) (\<lambda>context.
     ret \<lparr>qid = ''G-P6-Q'' @ str_nat (i + 1), stem = None, ctx = Some context,
          options = opts_labeled, answer = ans, explanationJa = note\<rparr>))))"

definition gen_part6 ::
  "'s runtime \<Rightarrow> int \<Rightarrow> string option \<Rightarrow> string option \<Rightarrow> string option \<Rightarrow> ('s, part_block) rand" where
  "gen_part6 rt cnt difficulty genre domain =
     bnd (for_each [0..<nat cnt] (p6_question rt domain))
       (\<lambda>qs. ret \<lparr>part = 6, name = ''Text Completion'',
                  instructions = ''Read the text and choose the best option to complete the blank.'',
                  questions = qs\<rparr>)"

section \<open>Part 7: reading comprehension\<close>

definition build_sentence :: "'s runtime \<Rightarrow> ('s, string) rand" where
  "build_sentence rt =
     bnd (choice rt
            [''Our company'', ''The community center'', ''A local nonprofit'', ''The city council'',
             ''The marketing team'', ''A travel agency'',
             ''This year'' @ rsquo @ ''s organizing committee'']) (\<lambda>subject.
     bnd (choice rt
            [''is planning'', ''has announced'', ''will introduce'', ''is preparing'',
             ''decided to launch'', ''started coordinating'', ''will expand'']) (\<lambda>action.
     bnd (choice rt
            [''a new outreach program'', ''an annual charity event'', ''a series of workshops'',
             ''an employee wellness initiative'', ''a weekend festival'', ''a pilot project'']) (\<lambda>object.
     bnd (choice rt
            [''to support local businesses'', ''to improve public awareness'',
             ''to gather feedback from residents'', ''to foster collaboration across departments'',
             ''to help first-time participants'', ''to share practical skills'']) (\<lambda>detail.
     ret (subject @ '' '' @ action @ '' '' @ object @ '' '' @ detail @ ''.'')))))"

definition build_paragraph :: "'s runtime \<Rightarrow> nat \<Rightarrow> ('s, string) rand" where
  "build_paragraph rt target_sentences =
     bnd (for_each [0..<target_sentences] (\<lambda>_. build_sentence rt))
       (\<lambda>sentences. ret (join '' '' sentences))"

definition make_passage :: "'s runtime \<Rightarrow> string \<Rightarrow> ('s, string) rand" where
  "make_passage rt len =
     (if len = ''long'' then
        bnd (build_paragraph rt 5) (\<lambda>p1.
        bnd (build_paragraph rt 5) (\<lambda>p2.
        bnd (build_paragraph rt 4) (\<lambda>p3.
        ret (p1 @ [CHR 10, CHR 10] @ p2 @ [CHR 10, CHR 10] @ p3))))
      else if len = ''medium'' then
        bnd (build_paragraph rt 4) (\<lambda>p1.
        bnd (build_paragraph rt 3) (\<lambda>p2.
        ret (p1 @ [CHR 10, CHR 10] @ p2)))
      else build_paragraph rt 3)"

type_synonym bank_entry = "string \<times> string \<times> string list \<times> nat \<times> jtext"

definition p7_short_bank :: "'s runtime \<Rightarrow> string option \<Rightarrow> bank_entry list" where
  "p7_short_bank rt domain =
   (let prod = ad_item (domain_lex rt domain) in [
    (''Notice: The downtown library will close at 5 p.m. on Friday for a private event. Regular hours resume Saturday.'',
     ''What will happen on Friday evening?'',
     [''The library will host a private event.'', ''The library will extend its hours.'', ''The library will open a new branch.'', ''The library will be under renovation.''],
     0, [Ja ''p7_bank_1'']),
    (''FAQ: How do I change my account e-mail? Go to Settings > Profile and select 'Update E-mail'.'',
     ''What should users do to change their e-mail?'',
     [''Open the Settings page and update it.'', ''Contact customer support by phone.'', ''Fill out a paper form.'', ''Send a fax to the office.''],
     0, [Ja ''p7_bank_2'']),
    (''Schedule: Airport Shuttle '' @ em_dash @ '' Departures: 08:00, 09:30, 11:00. Returns: 14:00, 16:30, 19:00.'',
     ''When is the next shuttle after 9 a.m.?'',
     [''09:30'', ''08:00'', ''11:00'', ''14:00''],
     0, [Ja ''p7_bank_3'']),
    (''Ad: Sign up this week and get 30% off our '' @ prod @ ''.'',
     ''What is the main offer in the ad?'',
     [''A 30% discount for sign-ups this week.'', ''A free trial for one month.'', ''A buy-one-get-one deal.'', ''A free upgrade for all users.''],
     0, [Ja ''p7_bank_4'']),
    (''Review: The new model is lightweight and easy to carry, but the screen brightness could be higher.'',
     ''What is one criticism mentioned in the review?'',
     [''The screen is not bright enough.'', ''It is too heavy.'', ''It is complicated to use.'', ''The battery drains too fast.''],
     0, [Ja ''p7_bank_5'']),
    (''Notice: The cafeteria will be closed on Tuesday afternoon for equipment maintenance.'',
     ''What will happen on Tuesday afternoon?'',
     [''The cafeteria will be closed.'', ''The cafeteria will extend hours.'', ''A new cafeteria will open.'', ''Free meals will be offered.''],
     0, [Ja ''p7_bank_6'']),
    (''Job Posting: We are seeking a part-time receptionist with weekend availability.'',
     ''What is one requirement for the position?'',
     [''Availability on weekends.'', ''A full-time schedule.'', ''Experience in construction.'', ''International travel.''],
     0, [Ja ''p7_bank_7'']),
    (''Invoice: Balance due by June 30. Please include the invoice number with your payment.'',
     ''When is the balance due?'',
     [''By June 30.'', ''By June 15.'', ''On July 1.'', ''Within seven days.''],
     0, [Ja ''p7_bank_8'']),
    (''Policy: Personal devices must be kept in silent mode during meetings.'',
     ''What must employees do during meetings?'',
     [''Keep personal devices in silent mode.'', ''Turn off all lights.'', ''Report to security.'', ''Wear ID badges at home.''],
     0, [Ja ''p7_bank_9'']),
    (''FAQ: Can I return items without a receipt? Returns without a receipt are accepted for store credit only.'',
     ''What happens if you return an item without a receipt?'',
     [''You receive store credit.'', ''You receive a full refund.'', ''The return is not accepted.'', ''You must pay a fee.''],
     0, [Ja ''p7_bank_10'']),
    (''Schedule: Trains to Central '' @ em_dash @ '' 08:10, 08:40, 09:05, 09:50.'',
     ''Which train departs after 9 a.m.?'',
     [''09:05'', ''08:40'', ''08:10'', ''09:50''],
     0, [Ja ''p7_bank_11'']),
    (''Press Release: Norvia Labs will open a new research center in August to expand its testing capacity.'',
     ''What is Norvia Labs planning to do?'',
     [''Open a new research center.'', ''Close its main office.'', ''Discontinue testing services.'', ''Relocate overseas immediately.''],
     0, [Ja ''p7_bank_12'']),
    (''Menu: Lunch Set includes soup, a main dish, and coffee or tea.'',
     ''What is included in the lunch set?'',
     [''Soup and a main dish with a drink.'', ''Only a main dish.'', ''Dessert and coffee only.'', ''Two main dishes.''],
     0, [Ja ''p7_bank_13'']),
    (''Parking Rates: $3 per hour; maximum daily rate $12.'',
     ''How much is the maximum daily parking rate?'',
     [''$12'', ''$3'', ''$6'', ''$9''],
     0, [Ja ''p7_bank_14'']),
    (''Event: Community Cleanup '' @ em_dash @ '' Saturday 9 a.m. Registration closes Thursday at 5 p.m.'',
     ''When does registration close?'',
     [''Thursday at 5 p.m.'', ''Friday at noon.'', ''Saturday at 9 a.m.'', ''Sunday morning.''],
     0, [Ja ''p7_bank_15'']),
    (''Weather Alert: High winds expected overnight. Secure outdoor items.'',
     ''What does the alert advise people to do?'',
     [''Secure outdoor items.'', ''Open all windows.'', ''Drive at high speed.'', ''Cancel indoor events.''],
     0, [Ja ''p7_bank_16'']),
    (''Post: Our pop-up store opens at 11 a.m. today '' @ em_dash @ '' first 50 visitors get a free tote bag!'',
     ''What is offered to early visitors?'',
     [''A free tote bag.'', ''A free lunch.'', ''A 70% discount.'', ''A free umbrella.''],
     0, [Ja ''p7_bank_17'']),
    (''Interview Schedule: Candidates should arrive 15 minutes early and bring photo ID.'',
     ''What must candidates bring?'',
     [''A photo ID.'', ''A recommendation letter.'', ''A passport-sized photo.'', ''A laptop.''],
     0, [Ja ''p7_bank_18''])])"

text \<open>The chain of \<open>elif genre == ...\<close> of the short branch: the label that the passages of
  the candidates start with, for each recognised genre, in the order of the source.\<close>

definition genre_label :: "string option \<Rightarrow> string option" where
  "genre_label genre =
     (if genre = Some ''faq'' then Some ''FAQ:''
      else if genre = Some ''schedule'' then Some ''Schedule:''
      else if genre = Some ''advertisement'' then Some ''Ad:''
      else if genre = Some ''review'' then Some ''Review:''
      else if genre = Some ''notice'' \<or> genre = Some ''internal_notice'' then Some ''Notice:''
      else if genre = Some ''policy'' then Some ''Policy:''
      else if genre = Some ''press_release'' then Some ''Press Release:''
      else if genre = Some ''invoice'' then Some ''Invoice:''
      else if genre = Some ''menu'' then Some ''Menu:''
      else if genre = Some ''event'' then Some ''Event:''
      else if genre = Some ''weather'' then Some ''Weather Alert:''
      else if genre = Some ''job_posting'' then Some ''Job Posting:''
      else if genre = Some ''parking'' then Some ''Parking Rates:''
      else if genre = Some ''social_post'' then Some ''Post:''
      else if genre = Some ''interview'' then Some ''Interview Schedule:''
      else if genre = Some ''newsletter'' then Some ''Newsletter:''
      else None)"

text \<open>\<open>candidates = [b for b in short_bank if b[0].startswith(label)]\<close> and
  \<open>rng.choice(candidates or short_bank)\<close>; without a recognised genre,
  \<open>rng.choice(short_bank)\<close>.\<close>

definition candidates :: "string \<Rightarrow> bank_entry list \<Rightarrow> bank_entry list" where
  "candidates label short_bank = filter (\<lambda>b. startswith (fst b) label) short_bank"

definition p7_pick_short :: "'s runtime \<Rightarrow> string option \<Rightarrow> bank_entry list \<Rightarrow> ('s, bank_entry) rand" where
  "p7_pick_short rt genre short_bank =
     (case genre_label genre of
        Some label \<Rightarrow>
          choice rt (if candidates label short_bank \<noteq> [] then candidates label short_bank
                     else short_bank)
      | None \<Rightarrow> choice rt short_bank)"

definition key_hint :: "string \<Rightarrow> jtext" where
  "key_hint passage =
     (if contains passage ''private event'' then [Ja ''hint_private_event'']
      else if contains passage ''attached the draft agenda'' then [Ja ''hint_draft_agenda'']
      else if contains passage ''Registration includes'' then [Ja ''hint_registration'']
      else if contains passage ''The elevator is out of service'' then [Ja ''hint_elevator'']
      else if contains passage ''battery life'' then [Ja ''hint_battery_life'']
      else [])"

text \<open>The body of the loop of \<open>gen_part7\<close> up to the call of \<open>_label_options\<close>: passage, stem,
  plain options, correct index, rationale.\<close>

definition p7_material ::
  "'s runtime \<Rightarrow> string \<Rightarrow> string option \<Rightarrow> string option \<Rightarrow> ('s, bank_entry) rand" where
  "p7_material rt len genre domain =
     (if len = ''medium'' \<or> len = ''long'' then
        bnd (make_passage rt len) (\<lambda>passage.
        bnd (lift (coin rt)) (\<lambda>below_half.
        if below_half then
          ret (passage, ''What is the main purpose of the passage?'',
               [''To announce or describe an upcoming initiative.'',
                ''To provide technical instructions for repairs.'',
                ''To advertise discounted products.'',
                ''To issue a safety recall notice.''],
               0, [Ja ''p7_main_purpose''])
        else
          bnd (choice rt
                 [''a new outreach program'', ''a series of workshops'', ''a pilot project'',
                  ''an employee wellness initiative'']) (\<lambda>correct_obj.
          ret (passage, ''Which of the following is mentioned in the passage?'',
               [''Plans to introduce '' @ correct_obj @ ''.'',
                ''A recall of defective devices.'',
                ''A storewide 50% discount.'',
                ''Instructions to repair machinery.''],
               0, [Ja ''p7_mentioned'']))))
      else
        bnd (p7_pick_short rt genre (p7_short_bank rt domain))
          (\<lambda>(passage, st, opts, correct_idx, _).
        ret (passage, st, opts, correct_idx,
             [Ja ''p7_direct''] @ key_hint passage @ [Ja ''p7_underline''])))"

definition p7_question ::
  "'s runtime \<Rightarrow> string \<Rightarrow> string option \<Rightarrow> string option \<Rightarrow> nat \<Rightarrow> ('s, question) rand" where
  "p7_question rt len genre domain i =
     bnd (p7_material rt len genre domain) (\<lambda>(passage, st, opts, correct_idx, note).
     bnd (lift (label_options rt opts correct_idx)) (\<lambda>(opts_labeled, ans).
     ret \<lparr>qid = ''G-P7-Q'' @ str_nat (i + 1), stem = Some st, ctx = Some (Passage passage),
          options = opts_labeled, answer = ans, explanationJa = note\<rparr>))"

definition gen_part7 ::
  "'s runtime \<Rightarrow> int \<Rightarrow> string \<Rightarrow> string option \<Rightarrow> string option \<Rightarrow> string option \<Rightarrow>
   ('s, part_block) rand" where
  "gen_part7 rt cnt len difficulty genre domain =
     bnd (for_each [0..<nat cnt] (p7_question rt len genre domain))
       (\<lambda>qs. ret \<lparr>part = 7, name = ''Reading Comprehension'',
                  instructions = ''Read the passage and choose the best answer.'',
                  questions = qs\<rparr>)"

section \<open>Dataset assembler\<close>

text \<open>What a call reads from its environment: the date of the day, as \<open>date.today().isoformat()\<close>
  prints it, and the state that \<open>random.Random(None)\<close> starts from.\<close>

record 's env =
  today :: string
  entropy :: "'s"

text \<open>The dictionary \<open>generators\<close>. The generators of parts 1 to 4 are values of the
  dictionary that \<open>generate_dataset\<close> never calls.\<close>

datatype generator = Gen_part1 | Gen_part2 | Gen_part3 | Gen_part4 | Gen_part5 | Gen_part6 | Gen_part7

definition generators :: "int \<Rightarrow> generator option" where
  "generators p =
     map_of [(1, Gen_part1), (2, Gen_part2), (3, Gen_part3), (4, Gen_part4),
             (5, Gen_part5), (6, Gen_part6), (7, Gen_part7)] p"

text \<open>The loop over \<open>part_list\<close>, appending to \<open>out_parts\<close>.\<close>

fun gen_parts ::
  "'s runtime \<Rightarrow> int \<Rightarrow> string option \<Rightarrow> string option \<Rightarrow> string option \<Rightarrow> string option \<Rightarrow>
   int list \<Rightarrow> ('s, part_block list) rand" where
  "gen_parts rt per_part p7_length difficulty genre domain [] = ret []"
| "gen_parts rt per_part p7_length difficulty genre domain (p # ps) =
     (if generators p \<noteq> None \<and> p \<in> {5, 6, 7} then
        bnd (if p = 7 then
               gen_part7 rt per_part
                 (case p7_length of None \<Rightarrow> ''short'' | Some l \<Rightarrow> if l = [] then ''short'' else l)
                 difficulty genre domain
             else if p = 6 then gen_part6 rt per_part difficulty genre domain
             else gen_part5 rt per_part difficulty genre domain) (\<lambda>b.
        bnd (gen_parts rt per_part p7_length difficulty genre domain ps) (\<lambda>bs.
        ret (b # bs)))
      else gen_parts rt per_part p7_length difficulty genre domain ps)"

definition generate_dataset ::
  "'s runtime \<Rightarrow> 's env \<Rightarrow> string \<Rightarrow> int \<Rightarrow> int list option \<Rightarrow> int option \<Rightarrow> string option \<Rightarrow>
   string option \<Rightarrow> string option \<Rightarrow> string option \<Rightarrow> error + dataset" where
  "generate_dataset rt e ttl per_part part_arg seed p7_length difficulty genre domain =
     (let rng = (case seed of Some k \<Rightarrow> seeded rt k | None \<Rightarrow> entropy e);
          part_list = (case part_arg of None \<Rightarrow> [5, 6, 7]
                       | Some ps \<Rightarrow> if ps = [] then [5, 6, 7] else ps)
      in case gen_parts rt per_part p7_length difficulty genre domain part_list rng of
           Inl err \<Rightarrow> Inl err
         | Inr (out_parts, _) \<Rightarrow>
             Inr \<lparr>title = ttl,
                  version = ''1.0.0'',
                  language = ''en'',
                  explanationsLanguage = ''ja'',
                  createdAt = today e,
                  parts = out_parts,
                  metadata_noteJa = [Ja ''metadata_note'']\<rparr>)"

section \<open>The quiz front end\<close>

subsection \<open>Filtering a dataset to the reading parts, on the heap\<close>

text \<open>
  \<open>filter_reading_only\<close> is the same function in both front ends. It receives a reference
  to a dictionary, and what it does to the objects behind the reference matters, so the
  objects live in a heap: a list of objects, an address being an index, and an allocation
  appending the new object. A dictionary is the list of its items in insertion order.
\<close>

type_synonym addr = nat

datatype val = NoneV | IntV int | StrV string | RefV addr

datatype obj = DictO "(string \<times> val) list" | ListO "val list"

type_synonym heap = "obj list"

datatype py_error = TypeError | AttributeError | ValueError

definition alloc :: "heap \<Rightarrow> obj \<Rightarrow> addr \<times> heap" where
  "alloc h ob = (length h, h @ [ob])"

text \<open>\<open>v.get(key, default)\<close>: the receiver has to be a dictionary.\<close>

definition dict_get :: "heap \<Rightarrow> val \<Rightarrow> string \<Rightarrow> val \<Rightarrow> py_error + val" where
  "dict_get h v key dflt =
     (case v of
        RefV a \<Rightarrow>
          (if a < length h then
             (case h ! a of
                DictO items \<Rightarrow> Inr (case map_of items key of None \<Rightarrow> dflt | Some x \<Rightarrow> x)
              | ListO _ \<Rightarrow> Inl AttributeError)
           else Inl AttributeError)
      | _ \<Rightarrow> Inl AttributeError)"

text \<open>\<open>int(v)\<close>. A part number is an integer in every dataset; the conversion of a string
  is not modelled and raises here.\<close>

definition py_int :: "val \<Rightarrow> py_error + int" where
  "py_int v = (case v of IntV i \<Rightarrow> Inr i | StrV _ \<Rightarrow> Inl ValueError | _ \<Rightarrow> Inl TypeError)"

text \<open>The elements that \<open>for p in v\<close> runs through: those of a list, the keys of a
  dictionary.\<close>

definition iterate :: "heap \<Rightarrow> val \<Rightarrow> py_error + val list" where
  "iterate h v =
     (case v of
        RefV a \<Rightarrow>
          (if a < length h then
             (case h ! a of
                ListO xs \<Rightarrow> Inr xs
              | DictO items \<Rightarrow> Inr (map (\<lambda>kv. StrV (fst kv)) items))
           else Inl TypeError)
      | StrV s \<Rightarrow> Inr (map (\<lambda>c. StrV [c]) s)
      | _ \<Rightarrow> Inl TypeError)"

text \<open>\<open>[p for p in ... if int(p.get("part", 0)) >= 5]\<close>\<close>

fun keep_reading :: "heap \<Rightarrow> val list \<Rightarrow> py_error + val list" where
  "keep_reading h [] = Inr []"
| "keep_reading h (p # ps) =
     (case dict_get h p ''part'' (IntV 0) of
        Inl e \<Rightarrow> Inl e
      | Inr v \<Rightarrow>
          (case py_int v of
             Inl e \<Rightarrow> Inl e
           | Inr n \<Rightarrow>
               (case keep_reading h ps of
                  Inl e \<Rightarrow> Inl e
                | Inr kept \<Rightarrow> Inr (if n \<ge> 5 then p # kept else kept))))"

text \<open>\<open>d[key] = v\<close> on the items of a dictionary: an existing key keeps its place.\<close>

fun dict_set :: "(string \<times> val) list \<Rightarrow> string \<Rightarrow> val \<Rightarrow> (string \<times> val) list" where
  "dict_set [] key v = [(key, v)]"
| "dict_set ((k, x) # items) key v =
     (if k = key then (k, v) # items else (k, x) # dict_set items key v)"

text \<open>The result is the address of the returned dictionary and the heap after the call.
  Without a key \<open>"parts"\<close> the default \<open>[]\<close> is iterated, a temporary that nothing refers to
  afterwards.\<close>

definition filter_reading_only :: "heap \<Rightarrow> addr \<Rightarrow> py_error + (addr \<times> heap)" where
  "filter_reading_only h data =
     (if data < length h then
        (case h ! data of
           DictO items \<Rightarrow>
             (case (case map_of items ''parts'' of None \<Rightarrow> Inr [] | Some v \<Rightarrow> iterate h v) of
                Inl e \<Rightarrow> Inl e
              | Inr ps \<Rightarrow>
                  (case keep_reading h ps of
                     Inl e \<Rightarrow> Inl e
                   | Inr kept \<Rightarrow>
                       (case alloc h (ListO kept) of
                          (parts_addr, h1) \<Rightarrow>
                            (case alloc h1 (DictO items) of
                               (copy_addr, h2) \<Rightarrow>
                                 Inr (copy_addr,
                                      h2[copy_addr := DictO (dict_set items ''parts'' (RefV parts_addr))])))))
         | ListO _ \<Rightarrow> Inl AttributeError)
      else Inl AttributeError)"

text \<open>A dataset on the heap, as section 3 of the specification has it: a dictionary whose
  \<open>"parts"\<close> is a list of references to dictionaries, each with an integer \<open>"part"\<close>.\<close>

definition part_block_at :: "heap \<Rightarrow> val \<Rightarrow> bool" where
  "part_block_at h v =
     (case v of
        RefV a \<Rightarrow>
          a < length h \<and>
          (case h ! a of
             DictO items \<Rightarrow> (case map_of items ''part'' of Some (IntV n) \<Rightarrow> True | _ \<Rightarrow> False)
           | ListO _ \<Rightarrow> False)
      | _ \<Rightarrow> False)"

definition part_number :: "heap \<Rightarrow> val \<Rightarrow> int" where
  "part_number h v =
     (case v of
        RefV a \<Rightarrow>
          (case h ! a of
             DictO items \<Rightarrow> (case map_of items ''part'' of Some (IntV n) \<Rightarrow> n | _ \<Rightarrow> 0)
           | ListO _ \<Rightarrow> 0)
      | _ \<Rightarrow> 0)"

definition dataset_at :: "heap \<Rightarrow> addr \<Rightarrow> (string \<times> val) list \<Rightarrow> addr \<Rightarrow> val list \<Rightarrow> bool" where
  "dataset_at h data items parts_addr ps =
     (data < length h \<and> h ! data = DictO items \<and>
      map_of items ''parts'' = Some (RefV parts_addr) \<and>
      parts_addr < length h \<and> h ! parts_addr = ListO ps \<and>
      list_all (part_block_at h) ps)"

subsection \<open>Loading one question\<close>

text \<open>On values, \<open>filter_reading_only\<close> keeps the part blocks from part 5 on.\<close>

definition reading_only :: "dataset \<Rightarrow> dataset" where
  "reading_only data = data\<lparr>parts := filter (\<lambda>p. part p \<ge> 5) (parts data)\<rparr>"

text \<open>\<open>collect_questions\<close> copies each question and adds \<open>_part\<close> and \<open>_part_name\<close>.\<close>

record ui_question = question +
  part_of_question :: int
  part_name :: string

definition collect_questions :: "dataset \<Rightarrow> ui_question list" where
  "collect_questions data =
     concat (map (\<lambda>p. map (\<lambda>q. question.extend q
                                   \<lparr>part_of_question = part p, part_name = name p\<rparr>)
                           (questions p))
                 (parts data))"

definition fallback_dataset :: "int \<Rightarrow> dataset" where
  "fallback_dataset part_arg =
     (let p = (if part_arg \<in> {5, 6, 7} then part_arg else 5);
          q = (if p = 5 then
                 \<lparr>qid = ''FB-P5-Q1'',
                  stem = Some ''Please choose the best word: We will ______ the report by Friday.'',
                  ctx = None,
                  options = [''A. submit'', ''B. repair'', ''C. cancel'', ''D. extend''],
                  answer = ''A'',
                  explanationJa = [Ja ''fallback_p5'']\<rparr>
               else if p = 6 then
                 \<lparr>qid = ''FB-P6-Q1'',
                  stem = None,
                  ctx = Some (Text (''Reminder: The meeting will start at 10 a.m. Please '' @ blank @
                                    '' on time.'')),
                  options = [''A. arrive'', ''B. arriving'', ''C. arrival'', ''D. arrived''],
                  answer = ''A'',
                  explanationJa = [Ja ''fallback_p6'']\<rparr>
               else
                 \<lparr>qid = ''FB-P7-Q1'',
                  stem = Some ''Why will the cafe close early?'',
                  ctx = Some (Passage ''Notice: The cafe will close at 6 p.m. today for maintenance.''),
                  options = [''A. For maintenance'', ''B. For a special event'',
                             ''C. Due to a holiday'', ''D. Because of a staff meeting''],
                  answer = ''A'',
                  explanationJa = [Ja ''fallback_p7'']\<rparr>);
          nm = (if p = 5 then ''Incomplete Sentences''
                else if p = 6 then ''Text Completion'' else ''Reading Comprehension'')
      in \<lparr>title = ''Fallback - Single Question'',
          version = ''1.0.0'',
          language = ''en'',
          explanationsLanguage = ''ja'',
          createdAt = [],
          parts = [\<lparr>part = p, name = nm, instructions = [], questions = [q]\<rparr>],
          metadata_noteJa = [Ja ''fallback_note'']\<rparr>)"

text \<open>The three fields of the session state, and what a callback returns for it.\<close>

record state =
  index :: int
  score :: int
  answered :: bool

datatype 'a callback_result = no_update | Update 'a

definition initial_state :: state where
  "initial_state = \<lparr>index = 0, score = 0, answered = False\<rparr>"

text \<open>\<open>on_load\<close>. The call of the external generator is an input: what it returned, or that
  it raised. Everything the body raises is caught by the outer \<open>except\<close>.\<close>

definition on_load ::
  "'s runtime \<Rightarrow> 's env \<Rightarrow> (error + dataset) \<Rightarrow> string \<Rightarrow> int option \<Rightarrow> int option \<Rightarrow>
   string option \<Rightarrow> ui_question list \<times> state" where
  "on_load rt e llm_result engine section_value seed p7_length =
     (let part_num = (case section_value of
                        Some v \<Rightarrow> if v \<in> {5, 6, 7} then v else 7
                      | None \<Rightarrow> 7);
          loaded =
            (if engine = ''openai'' then
               (case llm_result of Inl _ \<Rightarrow> Inr (fallback_dataset part_num) | Inr d \<Rightarrow> Inr d)
             else
               generate_dataset rt e ''TOEIC Mock - Single Question'' 1 (Some [part_num]) seed
                 (Some (case p7_length of None \<Rightarrow> ''long''
                        | Some l \<Rightarrow> if l = [] then ''long'' else l))
                 None None None)
      in case loaded of
           Inl _ \<Rightarrow> (collect_questions (fallback_dataset part_num), initial_state)
         | Inr data \<Rightarrow>
             (let qs = take 1 (collect_questions (reading_only data))
              in if qs = [] then (collect_questions (fallback_dataset part_num), initial_state)
                 else (qs, initial_state)))"

subsection \<open>Submitting and restarting\<close>

text \<open>\<open>xs[i]\<close> for an integer \<open>i\<close>: a negative index counts from the end.\<close>

definition py_get :: "'a list \<Rightarrow> int \<Rightarrow> error + 'a" where
  "py_get xs i =
     (if 0 \<le> i \<and> i < int (length xs) then Inr (xs ! nat i)
      else if i < 0 \<and> - int (length xs) \<le> i then Inr (xs ! nat (int (length xs) + i))
      else Inl IndexError)"

text \<open>The dataset store holds \<open>{"questions": [...]}\<close> or nothing; the state store holds
  the three fields.\<close>

definition on_submit ::
  "ui_question list option \<Rightarrow> state option \<Rightarrow> string option \<Rightarrow> error + state callback_result" where
  "on_submit dataset_store st choice_value =
     (case dataset_store of
        None \<Rightarrow> Inr no_update
      | Some qs \<Rightarrow>
          (case st of
             None \<Rightarrow> Inr no_update
           | Some s \<Rightarrow>
               if qs = [] then Inr no_update
               else if answered s then Inr no_update
               else
                 (case py_get qs (index s) of
                    Inl err \<Rightarrow> Inl err
                  | Inr q \<Rightarrow>
                      if choice_value = None \<or> choice_value = Some [] then Inr no_update
                      else Inr (Update
                        \<lparr>index = index s,
                         score = score s + (if choice_value = Some (answer q) then 1 else 0),
                         answered = True\<rparr>))))"

definition on_restart :: "ui_question list option \<Rightarrow> state callback_result" where
  "on_restart dataset_store =
     (case dataset_store of
        None \<Rightarrow> no_update
      | Some qs \<Rightarrow> if qs = [] then no_update else Update initial_state)"

text \<open>What the framework does with the result of a callback on the state store: a raised
  exception and \<open>no_update\<close> leave the store as it is.\<close>

definition store :: "state \<Rightarrow> error + state callback_result \<Rightarrow> state" where
  "store s r = (case r of Inr (Update s') \<Rightarrow> s' | _ \<Rightarrow> s)"

definition submit :: "ui_question list option \<Rightarrow> string option \<Rightarrow> state \<Rightarrow> state" where
  "submit dataset_store choice_value s = store s (on_submit dataset_store (Some s) choice_value)"

definition restart :: "ui_question list option \<Rightarrow> state \<Rightarrow> state" where
  "restart dataset_store s = store s (Inr (on_restart dataset_store))"

section \<open>A concrete runtime\<close>

text \<open>A linear congruential generator and the ASCII lower-casing, to run the model on
  concrete inputs.\<close>

definition lcg_next :: "nat \<Rightarrow> nat" where
  "lcg_next s = (1103515245 * s + 12345) mod 2147483648"

definition ascii_lower :: "char \<Rightarrow> char" where
  "ascii_lower c =
     (let n = of_char c :: nat in if 65 \<le> n \<and> n \<le> 90 then char_of (n + 32) else c)"

definition lcg :: "nat runtime" where
  "lcg = \<lparr>draw = (\<lambda>n s. (lcg_next s div 65536, lcg_next s)),
          coin = (\<lambda>s. (lcg_next s < 1073741824, lcg_next s)),
          seeded = (\<lambda>k. nat \<bar>k\<bar> mod 2147483648),
          lower = map ascii_lower\<rparr>"

section \<open>Predicates of the specification\<close>

text \<open>\<open>ensures m P\<close>: from every state of the generator, the computation \<open>m\<close> returns
  without raising, and its result satisfies \<open>P\<close>.\<close>

definition ensures :: "('s, 'a) rand \<Rightarrow> ('a \<Rightarrow> bool) \<Rightarrow> bool" where
  "ensures m P = (\<forall>s. case m s of Inl e \<Rightarrow> False | Inr (x, s') \<Rightarrow> P x)"

text \<open>The bundles a lexicon lookup can return: the default and the entries of the table.\<close>

definition lexicons :: "lexicon list" where
  "lexicons = conf # map snd table"

text \<open>What an archetype hands to the labeler, and what the labeler hands back.\<close>

definition plain_ok :: "string list \<Rightarrow> nat \<Rightarrow> bool" where
  "plain_ok opts ci = (2 \<le> length opts \<and> length opts \<le> 4 \<and> ci < length opts)"

definition well_labeled :: "string list \<Rightarrow> string \<Rightarrow> bool" where
  "well_labeled opts ans =
     (2 \<le> length opts \<and> length opts \<le> 4 \<and>
      map hd opts = take (length opts) ''ABCD'' \<and>
      (\<exists>k < length opts. ans = [letter k]))"

text \<open>How often a marker occurs in a text.\<close>

fun occurrences :: "string \<Rightarrow> string \<Rightarrow> nat" where
  "occurrences [] m = (if m = [] then 1 else 0)"
| "occurrences (c # cs) m = (if startswith (c # cs) m then 1 else 0) + occurrences cs m"

definition numbered_blanks :: "string \<Rightarrow> nat" where
  "numbered_blanks text =
     occurrences text (lb @ ''_____1'' @ rb) + occurrences text (lb @ ''_____2'' @ rb) +
     occurrences text (lb @ ''_____3'' @ rb)"

definition question_ok :: "question \<Rightarrow> bool" where
  "question_ok q = well_labeled (options q) (answer q)"

definition block_ok :: "int \<Rightarrow> int \<Rightarrow> part_block \<Rightarrow> bool" where
  "block_ok p cnt b = (part b = p \<and> length (questions b) = nat cnt \<and> list_all question_ok (questions b))"

definition part_list_of :: "int list option \<Rightarrow> int list" where
  "part_list_of part_arg =
     (case part_arg of None \<Rightarrow> [5, 6, 7] | Some ps \<Rightarrow> if ps = [] then [5, 6, 7] else ps)"

section \<open>Properties of the runtime operations\<close>

lemma randbelow_less: "0 < n \<Longrightarrow> fst (randbelow rt n s) < n"
  by (simp add: randbelow_def split: prod.splits)

lemma swap_mset: "i < length xs \<Longrightarrow> j < length xs \<Longrightarrow> mset (swap xs i j) = mset xs"
  by (simp add: swap_def mset_swap)

lemma length_swap [simp]: "length (swap xs i j) = length xs"
  by (simp add: swap_def)

lemma shuffle_fold_inv:
  "\<forall>i \<in> set js. i < length xs \<Longrightarrow>
   mset (fst (fold (shuffle_step rt) js (xs, s))) = mset xs \<and>
   length (fst (fold (shuffle_step rt) js (xs, s))) = length xs"
proof (induction js arbitrary: xs s)
  case Nil
  then show ?case by simp
next
  case (Cons i js)
  obtain j s' where rb: "randbelow rt (i + 1) s = (j, s')"
    by (cases "randbelow rt (i + 1) s")
  have "j < i + 1"
    using randbelow_less [of "i + 1" rt s] rb by simp
  moreover have il: "i < length xs"
    using Cons.prems by simp
  ultimately have jl: "j < length xs"
    by simp
  have step: "shuffle_step rt i (xs, s) = (swap xs i j, s')"
    using rb by (simp add: shuffle_step_def)
  have "\<forall>k \<in> set js. k < length (swap xs i j)"
    using Cons.prems by simp
  from Cons.IH [OF this, of s'] show ?case
    by (simp add: step swap_mset [OF il jl])
qed

lemma mset_shuffle: "mset (fst (shuffle rt xs s)) = mset xs"
  using shuffle_fold_inv [of "rev [1..<length xs]" xs rt s] by (simp add: shuffle_def)

lemma length_shuffle: "length (fst (shuffle rt xs s)) = length xs"
  using shuffle_fold_inv [of "rev [1..<length xs]" xs rt s] by (simp add: shuffle_def)

lemma shuffle_range_set: "set (fst (shuffle rt [0..<n] s)) = {0..<n}"
  using mset_shuffle [of rt "[0..<n]" s] by (metis set_mset_mset set_upt)

lemma shuffle_range_distinct: "distinct (fst (shuffle rt [0..<n] s))"
  using mset_shuffle [of rt "[0..<n]" s] by (metis distinct_upt mset_eq_imp_distinct_iff)

section \<open>Reasoning about computations\<close>

lemma ensuresD: "ensures m P \<Longrightarrow> \<exists>x s'. m s = Inr (x, s') \<and> P x"
proof -
  assume "ensures m P"
  then have "case m s of Inl e \<Rightarrow> False | Inr (x, s') \<Rightarrow> P x"
    by (simp add: ensures_def)
  then show ?thesis
    by (cases "m s") auto
qed

lemma ensuresI: "(\<And>s. \<exists>x s'. m s = Inr (x, s') \<and> P x) \<Longrightarrow> ensures m P"
  unfolding ensures_def
proof
  fix s
  assume a: "\<And>s. \<exists>x s'. m s = Inr (x, s') \<and> P x"
  from a [of s] show "case m s of Inl e \<Rightarrow> False | Inr (x, s') \<Rightarrow> P x" by auto
qed

lemma ensures_ret: "P x \<Longrightarrow> ensures (ret x) P"
  by (simp add: ensures_def ret_def)

lemma ensures_lift: "(\<And>s. P (fst (f s))) \<Longrightarrow> ensures (lift f) P"
  by (simp add: ensures_def lift_def split: prod.splits) (metis fst_conv)

lemma ensures_bnd:
  assumes "ensures m Q" and "\<And>x. Q x \<Longrightarrow> ensures (f x) P"
  shows "ensures (bnd m f) P"
proof (rule ensuresI)
  fix s
  from ensuresD [OF assms(1), of s] obtain x s' where m: "m s = Inr (x, s')" and q: "Q x"
    by blast
  from ensuresD [OF assms(2) [OF q], of s'] obtain y s'' where "f x s' = Inr (y, s'')" "P y"
    by blast
  then show "\<exists>y s''. bnd m f s = Inr (y, s'') \<and> P y"
    by (simp add: bnd_def m)
qed

lemma ensures_weaken: "ensures m Q \<Longrightarrow> (\<And>x. Q x \<Longrightarrow> P x) \<Longrightarrow> ensures m P"
  by (auto simp: ensures_def split: sum.splits prod.splits)

lemma ensures_choice:
  assumes "xs \<noteq> []" and "\<And>x. x \<in> set xs \<Longrightarrow> P x"
  shows "ensures (choice rt xs) P"
proof (rule ensuresI)
  fix s
  obtain j s' where rb: "randbelow rt (length xs) s = (j, s')"
    by (cases "randbelow rt (length xs) s")
  have "j < length xs"
    using randbelow_less [of "length xs" rt s] assms(1) rb by simp
  then have "P (xs ! j)"
    by (simp add: assms(2))
  then show "\<exists>x s'. choice rt xs s = Inr (x, s') \<and> P x"
    using assms(1) rb by (simp add: choice_def)
qed

lemma ensures_for_each:
  assumes "\<And>x. x \<in> set xs \<Longrightarrow> ensures (f x) P"
  shows "ensures (for_each xs f) (\<lambda>ys. length ys = length xs \<and> list_all P ys)"
  using assms
proof (induction xs)
  case Nil
  then show ?case by (simp add: ensures_ret)
next
  case (Cons x xs)
  have hd: "ensures (f x) P" by (rule Cons.prems) simp
  have tl: "ensures (for_each xs f) (\<lambda>ys. length ys = length xs \<and> list_all P ys)"
    by (rule Cons.IH) (simp add: Cons.prems)
  show ?case
    apply (simp only: for_each.simps)
    apply (rule ensures_bnd [OF hd])
    apply (rule ensures_bnd [OF tl])
    apply (rule ensures_ret)
    apply simp
    done
qed

lemma ensures_index_at: "i < length xs \<Longrightarrow> P (xs ! i) \<Longrightarrow> ensures (index_at xs i) P"
  by (simp add: ensures_def index_at_def)

lemma domain_lex_in: "domain_lex rt domain \<in> set lexicons"
  by (auto simp: domain_lex_def lexicons_def Let_def split: option.splits dest!: map_of_SomeD intro: rev_image_eqI)

lemma lexicons_nonempty:
  "\<forall>lx \<in> set lexicons. nouns lx \<noteq> [] \<and> depts lx \<noteq> [] \<and> companies lx \<noteq> []"
  by (simp add: lexicons_def conf_def table_def)

lemma ensures_bnd_choice:
  assumes "xs \<noteq> []" and "\<And>x. x \<in> set xs \<Longrightarrow> ensures (f x) P"
  shows "ensures (bnd (choice rt xs) f) P"
  by (rule ensures_bnd [OF ensures_choice [OF assms(1), of "\<lambda>x. x \<in> set xs"]]) (auto intro: assms(2))

lemma ensures_bnd_lift:
  assumes "\<And>s. ensures (g (fst (f s))) P"
  shows "ensures (bnd (lift f) g) P"
  by (rule ensures_bnd [OF ensures_lift [of "\<lambda>x. \<exists>s. x = fst (f s)"]]) (auto intro: assms)

section \<open>Properties of the answer labeler\<close>

lemma letter_simps: "letter 0 = CHR ''A''" "letter 1 = CHR ''B''" "letter 2 = CHR ''C''" "letter 3 = CHR ''D''"
  "letter (Suc 0) = CHR ''B''"
  by code_simp+

lemma upt_4: "[0..<4] = [0, 1, 2, 3]" "[0..<3] = [0, 1, 2]" "[0..<2] = [0, 1]" "[0..<1] = [0]"
  by code_simp+

lemma label_fold_fst:
  "fst (fold (label_step opts ci) ps acc) =
   fst acc @ map (\<lambda>(i, idx). letter i # ''. '' @ opts ! idx) ps"
  by (induction ps arbitrary: acc) (auto simp: label_step_def split: prod.splits)

lemma label_fold_snd:
  "snd (fold (label_step opts ci) ps acc) =
   (if \<exists>p \<in> set ps. snd p = ci then [letter (fst (last (filter (\<lambda>p. snd p = ci) ps)))] else snd acc)"
proof (induction ps arbitrary: acc)
  case Nil
  then show ?case by simp
next
  case (Cons p ps)
  obtain i idx where p: "p = (i, idx)" by (cases p)
  obtain l a where acc: "acc = (l, a)" by (cases acc)
  have step: "label_step opts ci p acc = (l @ [letter i # ''. '' @ opts ! idx], if idx = ci then [letter i] else a)"
    by (simp add: label_step_def p acc)
  show ?case
  proof (cases "\<exists>q \<in> set ps. snd q = ci")
    case True
    then have "filter (\<lambda>p. snd p = ci) ps \<noteq> []" by (auto simp: filter_empty_conv)
    then have "last (filter (\<lambda>p. snd p = ci) (p # ps)) = last (filter (\<lambda>p. snd p = ci) ps)"
      by simp
    with True show ?thesis
      using Cons.IH [of "label_step opts ci p acc"] by simp
  next
    case False
    then have "filter (\<lambda>p. snd p = ci) ps = []" by (auto simp: filter_empty_conv)
    with False show ?thesis
      using Cons.IH [of "label_step opts ci p acc"] by (simp add: p acc label_step_def)
  qed
qed

lemma label_answer:
  assumes "ci \<in> set idxs"
  shows "\<exists>k < length idxs. idxs ! k = ci \<and> snd (fold (label_step opts ci) (enumerate 0 idxs) acc) = [letter k]"
proof -
  let ?ps = "enumerate 0 idxs"
  let ?qs = "filter (\<lambda>p. snd p = ci) ?ps"
  from assms obtain j where j: "j < length idxs" "idxs ! j = ci"
    by (auto simp: in_set_conv_nth)
  then have "(j, ci) \<in> set ?ps" by (auto simp: in_set_enumerate_eq)
  then have ex: "\<exists>p \<in> set ?ps. snd p = ci" by force
  then have ne: "?qs \<noteq> []" by (auto simp: filter_empty_conv)
  then have "last ?qs \<in> set ?qs" by (rule last_in_set)
  then have mem: "last ?qs \<in> set ?ps" and sn: "snd (last ?qs) = ci" by auto
  obtain k c where kc: "last ?qs = (k, c)" by (cases "last ?qs")
  with mem sn have "k < length idxs" "idxs ! k = ci" by (auto simp: in_set_enumerate_eq)
  moreover have "snd (fold (label_step opts ci) ?ps acc) = [letter k]"
    using ex kc by (simp add: label_fold_snd)
  ultimately show ?thesis by blast
qed

lemma map_letter_upt: "k \<le> 4 \<Longrightarrow> map letter [0..<k] = take k ''ABCD''"
proof -
  assume "k \<le> 4"
  then consider "k = 0" | "k = 1" | "k = 2" | "k = 3" | "k = 4" by linarith
  then show ?thesis
  proof cases
    case 2
    then show ?thesis by (simp add: letter_simps)
  qed (simp_all add: letter_simps upt_4 del: upt_Suc One_nat_def)
qed

lemma label_options_shape:
  assumes sh: "shuffle rt [0..<length opts] s = (idxs, s')"
  shows "fst (fst (label_options rt opts ci s)) =
           map (\<lambda>(i, idx). letter i # ''. '' @ opts ! idx) (enumerate 0 idxs)"
    and "snd (label_options rt opts ci s) = s'"
    and "length idxs = length opts"
    and "set idxs = {0..<length opts}"
    and "distinct idxs"
    and "ci < length opts \<Longrightarrow>
           \<exists>k < length opts. idxs ! k = ci \<and> snd (fst (label_options rt opts ci s)) = [letter k]"
proof -
  have idxs: "idxs = fst (shuffle rt [0..<length opts] s)"
    by (simp add: sh)
  show len: "length idxs = length opts"
    by (simp add: idxs length_shuffle)
  show set: "set idxs = {0..<length opts}"
    by (simp add: idxs shuffle_range_set)
  show "distinct idxs"
    by (simp add: idxs shuffle_range_distinct)
  show "fst (fst (label_options rt opts ci s)) =
           map (\<lambda>(i, idx). letter i # ''. '' @ opts ! idx) (enumerate 0 idxs)"
    by (simp add: label_options_def sh label_fold_fst)
  show "snd (label_options rt opts ci s) = s'"
    by (simp add: label_options_def sh)
  show "\<exists>k < length opts. idxs ! k = ci \<and> snd (fst (label_options rt opts ci s)) = [letter k]"
    if "ci < length opts"
  proof -
    from that set have "ci \<in> set idxs" by simp
    from label_answer [OF this, of opts "([], ''A'')"] len show ?thesis
      by (simp add: label_options_def sh)
  qed
qed

lemma map_hd_labeled:
  "map hd (map (\<lambda>(i, idx). letter i # ''. '' @ opts ! idx) (enumerate 0 idxs)) =
   map letter [0..<length idxs]"
proof -
  have "map hd (map (\<lambda>(i, idx). letter i # ''. '' @ opts ! idx) (enumerate 0 idxs)) =
        map (\<lambda>p. letter (fst p)) (enumerate 0 idxs)"
    by (simp add: case_prod_unfold comp_def)
  also have "\<dots> = map letter [0..<length idxs]"
    by (rule nth_equalityI) (simp_all add: nth_enumerate_eq)
  finally show ?thesis .
qed

lemma label_options_letters_aux:
  assumes "2 \<le> length options_plain" and "length options_plain \<le> 4"
    and "correct_index < length options_plain"
  shows "case label_options rt options_plain correct_index s of
           ((labeled, answer_letter), s') \<Rightarrow>
             length labeled = length options_plain \<and>
             map hd labeled = take (length options_plain) ''ABCD'' \<and>
             distinct (map hd labeled) \<and>
             (\<exists>c \<in> set (map hd labeled). answer_letter = [c])"
proof -
  obtain idxs s' where sh: "shuffle rt [0..<length options_plain] s = (idxs, s')"
    by (cases "shuffle rt [0..<length options_plain] s")
  obtain labeled answer_letter s'' where
    lo: "label_options rt options_plain correct_index s = ((labeled, answer_letter), s'')"
    by (cases "label_options rt options_plain correct_index s") auto
  note shape = label_options_shape [OF sh]
  have lab: "labeled = map (\<lambda>(i, idx). letter i # ''. '' @ options_plain ! idx) (enumerate 0 idxs)"
    using shape(1) [of correct_index] lo by simp
  have len: "length idxs = length options_plain"
    by (rule shape(3))
  have hd: "map hd labeled = map letter [0..<length options_plain]"
    by (simp only: lab map_hd_labeled len)
  have letters: "map hd labeled = take (length options_plain) ''ABCD''"
    using hd map_letter_upt [OF assms(2)] by simp
  have "distinct (take (length options_plain) ''ABCD'')"
    by (rule distinct_take) simp
  then have dist: "distinct (map hd labeled)"
    by (simp only: letters)
  from shape(6) [OF assms(3)] lo obtain k where
    k: "k < length options_plain" "answer_letter = [letter k]"
    by auto
  have "letter k \<in> set (map letter [0..<length options_plain])"
    using k(1) by simp
  then have ans: "\<exists>c \<in> set (map hd labeled). answer_letter = [c]"
    using k(2) hd by auto
  have "length labeled = length options_plain"
    by (simp add: lab len)
  with letters dist ans show ?thesis
    unfolding lo prod.case by blast
qed

lemma label_options_good:
  assumes "plain_ok opts ci"
  shows "length (fst (fst (label_options rt opts ci s))) = length opts \<and>
         well_labeled (fst (fst (label_options rt opts ci s))) (snd (fst (label_options rt opts ci s)))"
proof -
  from assms have h: "2 \<le> length opts" "length opts \<le> 4" "ci < length opts"
    by (simp_all add: plain_ok_def)
  obtain labeled ans s' where lo: "label_options rt opts ci s = ((labeled, ans), s')"
    by (cases "label_options rt opts ci s") auto
  obtain idxs t where sh: "shuffle rt [0..<length opts] s = (idxs, t)"
    by (cases "shuffle rt [0..<length opts] s")
  from label_options_shape(6) [OF sh h(3)] lo
  obtain k where k: "k < length opts" "ans = [letter k]"
    by auto
  from label_options_letters_aux [OF h, of rt s]
  have "length labeled = length opts" "map hd labeled = take (length opts) ''ABCD''"
    by (simp_all add: lo)
  with h k show ?thesis
    by (auto simp: lo well_labeled_def)
qed

text \<open>
  C2. For a plain option list of length \<open>k\<close> between 2 and 4 and a correct index in range,
  \<open>_label_options\<close> returns \<open>k\<close> option strings whose leading letters are exactly
  \<open>A\<close>, \<open>B\<close>, ... in that order, each once, and the answer letter is one of them.
\<close>

theorem label_options_letters:
  assumes "2 \<le> length options_plain" and "length options_plain \<le> 4"
    and "correct_index < length options_plain"
  shows "case label_options rt options_plain correct_index s of
           ((labeled, answer_letter), s') \<Rightarrow>
             length labeled = length options_plain \<and>
             map hd labeled = take (length options_plain) ''ABCD'' \<and>
             distinct (map hd labeled) \<and>
             (\<exists>c \<in> set (map hd labeled). answer_letter = [c])"
  using assms by (rule label_options_letters_aux)

theorem label_options_letters_witness:
  "2 \<le> length [''submit'', ''repair'', ''cancel'', ''extend''] \<and>
   length [''submit'', ''repair'', ''cancel'', ''extend''] \<le> 4 \<and>
   (0::nat) < length [''submit'', ''repair'', ''cancel'', ''extend''] \<and>
   (case label_options lcg [''submit'', ''repair'', ''cancel'', ''extend''] 0 (seeded lcg 42) of
      ((labeled, answer_letter), s') \<Rightarrow>
        length labeled = length [''submit'', ''repair'', ''cancel'', ''extend''] \<and>
        map hd labeled = take (length [''submit'', ''repair'', ''cancel'', ''extend'']) ''ABCD'' \<and>
        distinct (map hd labeled) \<and>
        (\<exists>c \<in> set (map hd labeled). answer_letter = [c]))"
proof -
  have h1: "2 \<le> length [''submit'', ''repair'', ''cancel'', ''extend'']" by simp
  have h2: "length [''submit'', ''repair'', ''cancel'', ''extend''] \<le> 4" by simp
  have h3: "(0::nat) < length [''submit'', ''repair'', ''cancel'', ''extend'']" by simp
  from label_options_letters [OF h1 h2 h3, of lcg "seeded lcg 42"] h1 h2 h3
  show ?thesis by blast
qed

section \<open>The part synthesizers return\<close>

lemma p5_run_ok:
  assumes "lx \<in> set lexicons"
  shows "ensures (p5_run rt lx f) (\<lambda>(st, opts, ci, nt). plain_ok opts ci)"
proof -
  from assms lexicons_nonempty have ne: "nouns lx \<noteq> []" "depts lx \<noteq> []"
    by auto
  show ?thesis
    by (cases f) (auto intro!: ensures_bnd_choice ensures_ret simp: ne plain_ok_def)
qed

lemma p6_simple_ok:
  assumes "f \<noteq> paragraph_multi"
  shows "ensures (p6_run rt domain f) (\<lambda>(st, opts, ci, nt). plain_ok opts ci)"
  using assms by (cases f) (auto intro!: ensures_ret simp: plain_ok_def Let_def)

lemma ret_Inr [simp]: "ret x s = Inr (y, s') \<longleftrightarrow> y = x \<and> s' = s"
  by (auto simp: ret_def)

lemma lift_Inr [simp]: "lift f s = Inr (y, s') \<longleftrightarrow> f s = (y, s')"
  by (simp add: lift_def)

lemma index_at_Inr [simp]: "index_at xs i s = Inr (x, s') \<longleftrightarrow> i < length xs \<and> x = xs ! i \<and> s' = s"
  by (auto simp: index_at_def)

lemma bnd_InrD: "bnd m f s = Inr (y, s'') \<Longrightarrow> \<exists>x s'. m s = Inr (x, s') \<and> f x s' = Inr (y, s'')"
  by (cases "m s") (auto simp: bnd_def)

lemma bnd_InrE:
  assumes "bnd m f s = Inr (y, s'')"
  obtains x s' where "m s = Inr (x, s')" and "f x s' = Inr (y, s'')"
  using bnd_InrD [OF assms] by blast

lemma choice_InrD: "choice rt xs s = Inr (x, s') \<Longrightarrow> x \<in> set xs"
proof -
  assume a: "choice rt xs s = Inr (x, s')"
  then have ne: "xs \<noteq> []" by (auto simp: choice_def split: if_splits)
  obtain j t where rb: "randbelow rt (length xs) s = (j, t)" by (cases "randbelow rt (length xs) s")
  have "j < length xs" using randbelow_less [of "length xs" rt s] ne rb by simp
  with a ne rb show ?thesis by (auto simp: choice_def)
qed

lemma for_each_all:
  assumes "\<And>x s y s'. x \<in> set xs \<Longrightarrow> f x s = Inr (y, s') \<Longrightarrow> P y"
    and "for_each xs f s = Inr (ys, s')"
  shows "list_all P ys"
  using assms
proof (induction xs arbitrary: s ys s')
  case Nil
  then show ?case by simp
next
  case (Cons x xs)
  from Cons.prems(2) obtain y s1 zs s2 where
    y: "f x s = Inr (y, s1)" and zs: "for_each xs f s1 = Inr (zs, s2)" and ys: "ys = y # zs"
    by (auto elim!: bnd_InrE)
  have "P y" using Cons.prems(1) [of x s y s1] y by simp
  moreover have "list_all P zs"
  proof (rule Cons.IH)
    show "for_each xs f s1 = Inr (zs, s2)" by (rule zs)
  next
    fix x' t y' t'
    assume "x' \<in> set xs" and "f x' t = Inr (y', t')"
    then show "P y'" using Cons.prems(1) [of x' t y' t'] by simp
  qed
  ultimately show ?case by (simp add: ys)
qed

lemma ensures_result: "ensures m P \<Longrightarrow> m s = Inr (x, s') \<Longrightarrow> P x"
  using ensuresD [of m P s] by auto

lemma letter_index_letter: "k < 4 \<Longrightarrow> letter_index [letter k] = k"
proof -
  assume "k < 4"
  then consider "k = 0" | "k = 1" | "k = 2" | "k = 3" by linarith
  then show ?thesis
    by cases (simp_all add: letter_index_def letter_simps)
qed

lemma well_labeled_index:
  assumes "well_labeled opts ans"
  shows "plain_ok opts (letter_index ans)"
proof -
  from assms obtain k where k: "k < length opts" "ans = [letter k]"
    and len: "2 \<le> length opts" "length opts \<le> 4"
    by (auto simp: well_labeled_def)
  with len have "letter_index ans = k"
    by (simp add: letter_index_letter)
  with k len show ?thesis by (simp add: plain_ok_def)
qed

lemma ensures_labeled:
  assumes "plain_ok opts ci"
    and "\<And>l a. length l = length opts \<Longrightarrow> well_labeled l a \<Longrightarrow> ensures (g (l, a)) P"
  shows "ensures (bnd (lift (label_options rt opts ci)) g) P"
proof (rule ensures_bnd_lift)
  fix s
  obtain l a where la: "fst (label_options rt opts ci s) = (l, a)"
    by (cases "fst (label_options rt opts ci s)")
  from label_options_good [OF assms(1), of rt s] la
  have "length l = length opts" "well_labeled l a" by simp_all
  then show "ensures (g (fst (label_options rt opts ci s))) P"
    by (simp add: la assms(2))
qed

lemma ensures_bnd_archetype:
  assumes "ensures m (\<lambda>(st, opts, ci, nt). plain_ok opts ci)"
    and "\<And>st opts ci nt. plain_ok opts ci \<Longrightarrow> ensures (f (st, opts, ci, nt)) P"
  shows "ensures (bnd m f) P"
proof (rule ensures_bnd [OF assms(1)])
  fix x :: "'b \<times> string list \<times> nat \<times> 'c"
  assume "case x of (st, opts, ci, nt) \<Rightarrow> plain_ok opts ci"
  then show "ensures (f x) P"
    by (cases x) (auto intro: assms(2))
qed

lemma p5_question_ok:
  assumes "lx \<in> set lexicons" and "pool \<noteq> []"
  shows "ensures (p5_question rt lx pool i) question_ok"
  unfolding p5_question_def
  apply (rule ensures_bnd_choice [OF assms(2)])
  apply (rule ensures_bnd_archetype [OF p5_run_ok [OF assms(1)]])
  apply (simp only: prod.case)
  apply (rule ensures_labeled, assumption)
  apply (simp add: ensures_ret question_ok_def)
  done

lemma pattern_funcs_nonempty: "pattern_funcs difficulty \<noteq> []"
  by (simp add: pattern_funcs_def p5_hard_def p5_all_def)

lemma gen_part5_ok: "ensures (gen_part5 rt cnt difficulty genre domain) (block_ok 5 cnt)"
  unfolding gen_part5_def
  by (rule ensures_bnd [OF ensures_for_each [where P = question_ok]])
     (auto intro!: p5_question_ok domain_lex_in pattern_funcs_nonempty ensures_ret simp: block_ok_def)

lemma blank_lists:
  assumes "blanks = 2 \<or> blanks = 3" and "i < blanks"
  shows "i < length (blank_opts_plain blanks)" "i < length (blank_correct_idx blanks)"
    "plain_ok (blank_opts_plain blanks ! i) (blank_correct_idx blanks ! i)"
  using assms
  by (auto simp: blank_opts_plain_def blank_correct_idx_def plain_ok_def nth_Cons' less_Suc_eq numeral_2_eq_2 numeral_3_eq_3)

lemma paragraph_labels_ok:
  assumes "blanks = 2 \<or> blanks = 3"
  shows "ensures (for_each [0..<blanks] (\<lambda>i.
            bnd (index_at (blank_opts_plain blanks) i) (\<lambda>o_plain.
            bnd (index_at (blank_correct_idx blanks) i) (\<lambda>c.
            lift (label_options rt o_plain c)))))
          (\<lambda>labeled. length labeled = blanks \<and> list_all (\<lambda>(l, a). well_labeled l a) labeled)"
proof -
  have step: "ensures (bnd (index_at (blank_opts_plain blanks) i) (\<lambda>o_plain.
            bnd (index_at (blank_correct_idx blanks) i) (\<lambda>c.
            lift (label_options rt o_plain c)))) (\<lambda>(l, a). well_labeled l a)"
    if "i \<in> set [0..<blanks]" for i
  proof -
    from that have i: "i < blanks" by simp
    note bl = blank_lists [OF assms i]
    show ?thesis
      apply (rule ensures_bnd [OF ensures_index_at [OF bl(1), of "\<lambda>x. x = blank_opts_plain blanks ! i"]])
       apply simp
      apply (rule ensures_bnd [OF ensures_index_at [OF bl(2), of "\<lambda>x. x = blank_correct_idx blanks ! i"]])
       apply simp
      apply (rule ensures_lift)
      using label_options_good [OF bl(3), of rt]
      apply (simp add: case_prod_unfold)
      done
  qed
  from ensures_for_each [of "[0..<blanks]" _ "\<lambda>(l, a). well_labeled l a", OF step]
  show ?thesis by simp
qed

lemma paragraph_multi_ok:
  "ensures (paragraph_multi_run rt domain) (\<lambda>(st, opts, ci, nt). plain_ok opts ci)"
  unfolding paragraph_multi_run_def
proof (rule ensures_bnd_choice)
  show "[2, 3::nat] \<noteq> []" by simp
next
  fix blanks :: nat
  assume "blanks \<in> set [2, 3]"
  then have b: "blanks = 2 \<or> blanks = 3" by simp
  show "ensures
        (bnd (for_each [0..<blanks] (\<lambda>i.
            bnd (index_at (blank_opts_plain blanks) i) (\<lambda>o_plain.
            bnd (index_at (blank_correct_idx blanks) i) (\<lambda>c.
            lift (label_options rt o_plain c))))) (\<lambda>labeled.
     bnd (lift (randrange rt 1000000 9999999)) (\<lambda>group_number.
     bnd (index_at (map fst labeled) 0) (\<lambda>opts_for_first.
     bnd (index_at (map snd labeled) 0) (\<lambda>correct_letter_first.
     ret (paragraph_text (nouns (domain_lex rt domain)) blanks,
          opts_for_first, letter_index correct_letter_first,
          [Ja ''paragraph_multi'']))))))
        (\<lambda>(st, opts, ci, nt). plain_ok opts ci)"
  proof (rule ensures_bnd [OF paragraph_labels_ok [OF b]])
    fix labeled :: "(string list \<times> string) list"
    assume lab: "length labeled = blanks \<and> list_all (\<lambda>(l, a). well_labeled l a) labeled"
    with b have pos: "0 < length labeled" by auto
    then obtain l a rest where labeled: "labeled = (l, a) # rest"
      by (cases labeled) auto
    with lab have wl: "well_labeled l a" by simp
    show "ensures
        (bnd (lift (randrange rt 1000000 9999999)) (\<lambda>group_number.
     bnd (index_at (map fst labeled) 0) (\<lambda>opts_for_first.
     bnd (index_at (map snd labeled) 0) (\<lambda>correct_letter_first.
     ret (paragraph_text (nouns (domain_lex rt domain)) blanks,
          opts_for_first, letter_index correct_letter_first,
          [Ja ''paragraph_multi''])))))
        (\<lambda>(st, opts, ci, nt). plain_ok opts ci)"
      apply (rule ensures_bnd_lift)
      apply (rule ensures_bnd [OF ensures_index_at [of 0 _ "\<lambda>x. x = l"]])
        apply (simp add: labeled)
       apply (simp add: labeled)
      apply (rule ensures_bnd [OF ensures_index_at [of 0 _ "\<lambda>x. x = a"]])
        apply (simp add: labeled)
       apply (simp add: labeled)
      apply (rule ensures_ret)
      apply (simp add: well_labeled_index [OF wl])
      done
  qed
qed

lemma p6_run_ok: "ensures (p6_run rt domain f) (\<lambda>(st, opts, ci, nt). plain_ok opts ci)"
proof (cases "f = paragraph_multi")
  case True
  then show ?thesis by (simp add: paragraph_multi_ok)
next
  case False
  then show ?thesis by (rule p6_simple_ok)
qed

lemma plain_ok_fixed:
  "plain_ok [''submit'', ''review'', ''cancel'', ''extend''] 0"
  "plain_ok [''coordinate'', ''communicate'', ''collaborate'', ''cooperate''] 0"
  by (simp_all add: plain_ok_def)

lemma p6_multi_context_ok: "ensures (p6_multi_context rt text opts_labeled ans nt) (\<lambda>c. True)"
  unfolding p6_multi_context_def Let_def
  apply (rule ensures_labeled [OF plain_ok_fixed(1)])
  apply (simp only: prod.case)
  apply (rule ensures_bnd [where Q = "\<lambda>x. True"])
   apply (auto intro!: ensures_lift ensures_ret ensures_bnd_lift simp: case_prod_unfold)
  done

lemma patterns_nonempty: "patterns \<noteq> []"
  by (simp add: patterns_def)

lemma p6_question_ok: "ensures (p6_question rt domain i) question_ok"
  unfolding p6_question_def
  apply (rule ensures_bnd_choice [OF patterns_nonempty])
  apply (rule ensures_bnd_archetype [OF p6_run_ok])
  apply (simp only: prod.case)
  apply (rule ensures_labeled, assumption)
  apply (simp only: prod.case)
  apply (rule ensures_bnd [where Q = "\<lambda>x. True"])
   apply (simp add: p6_multi_context_ok ensures_ret)
  apply (simp add: ensures_ret question_ok_def)
  done

lemma gen_part6_ok: "ensures (gen_part6 rt cnt difficulty genre domain) (block_ok 6 cnt)"
  unfolding gen_part6_def
  by (rule ensures_bnd [OF ensures_for_each [where P = question_ok]])
     (auto intro!: p6_question_ok ensures_ret simp: block_ok_def)

lemma build_sentence_ok: "ensures (build_sentence rt) (\<lambda>x. True)"
  unfolding build_sentence_def
  by (intro ensures_bnd_choice ensures_ret) simp_all

lemma build_paragraph_ok: "ensures (build_paragraph rt n) (\<lambda>x. True)"
  unfolding build_paragraph_def
  by (rule ensures_bnd [OF ensures_for_each [where P = "\<lambda>x. True"]])
     (simp_all add: build_sentence_ok ensures_ret)

lemma make_passage_ok: "ensures (make_passage rt len) (\<lambda>x. True)"
  unfolding make_passage_def
  by (auto intro!: ensures_bnd [OF build_paragraph_ok] ensures_ret build_paragraph_ok)

lemma short_bank_ok:
  "p7_short_bank rt domain \<noteq> [] \<and>
   list_all (\<lambda>(passage, st, opts, ci, nt). plain_ok opts ci) (p7_short_bank rt domain)"
  by (simp add: p7_short_bank_def Let_def plain_ok_def)

lemma p7_pick_short_ok:
  assumes "bank \<noteq> []" and "list_all P bank"
  shows "ensures (p7_pick_short rt genre bank) P"
proof -
  have "ensures (choice rt xs) P" if "xs \<noteq> []" "set xs \<subseteq> set bank" for xs
    using that assms(2) by (auto intro!: ensures_choice simp: list_all_iff)
  then show ?thesis
    using assms(1) by (auto simp: p7_pick_short_def candidates_def split: option.splits)
qed

lemma p7_material_ok:
  "ensures (p7_material rt len genre domain) (\<lambda>(passage, st, opts, ci, nt). plain_ok opts ci)"
proof (cases "len = ''medium'' \<or> len = ''long''")
  case True
  have "ensures (bnd (make_passage rt len) (\<lambda>passage.
        bnd (lift (coin rt)) (\<lambda>below_half.
        if below_half then
          ret (passage, ''What is the main purpose of the passage?'',
               [''To announce or describe an upcoming initiative.'',
                ''To provide technical instructions for repairs.'',
                ''To advertise discounted products.'',
                ''To issue a safety recall notice.''],
               0, [Ja ''p7_main_purpose''])
        else
          bnd (choice rt
                 [''a new outreach program'', ''a series of workshops'', ''a pilot project'',
                  ''an employee wellness initiative'']) (\<lambda>correct_obj.
          ret (passage, ''Which of the following is mentioned in the passage?'',
               [''Plans to introduce '' @ correct_obj @ ''.'',
                ''A recall of defective devices.'',
                ''A storewide 50% discount.'',
                ''Instructions to repair machinery.''],
               0, [Ja ''p7_mentioned'']))))) (\<lambda>(passage, st, opts, ci, nt). plain_ok opts ci)"
    apply (rule ensures_bnd [OF make_passage_ok])
    apply (rule ensures_bnd_lift)
    apply (auto intro!: ensures_ret ensures_bnd_choice simp: plain_ok_def)
    done
  with True show ?thesis
    by (simp add: p7_material_def)
next
  case False
  have "ensures (bnd (p7_pick_short rt genre (p7_short_bank rt domain))
          (\<lambda>(passage, st, opts, correct_idx, _).
        ret (passage, st, opts, correct_idx,
             [Ja ''p7_direct''] @ key_hint passage @ [Ja ''p7_underline''])))
        (\<lambda>(passage, st, opts, ci, nt). plain_ok opts ci)"
    apply (rule ensures_bnd [OF p7_pick_short_ok [where P = "\<lambda>(passage, st, opts, ci, nt). plain_ok opts ci"]])
    using short_bank_ok [of rt domain] apply simp
    using short_bank_ok [of rt domain] apply simp
    apply (auto intro!: ensures_ret)
    done
  with False show ?thesis
    by (simp add: p7_material_def)
qed

lemma ensures_bnd_entry:
  assumes "ensures m (\<lambda>(passage, st, opts, ci, nt). plain_ok opts ci)"
    and "\<And>passage st opts ci nt. plain_ok opts ci \<Longrightarrow> ensures (f (passage, st, opts, ci, nt)) P"
  shows "ensures (bnd m f) P"
proof (rule ensures_bnd [OF assms(1)])
  fix x :: "'b \<times> 'c \<times> string list \<times> nat \<times> 'd"
  assume "case x of (passage, st, opts, ci, nt) \<Rightarrow> plain_ok opts ci"
  then show "ensures (f x) P"
    by (cases x) (auto intro: assms(2))
qed

lemma p7_question_ok: "ensures (p7_question rt len genre domain i) question_ok"
  unfolding p7_question_def
  apply (rule ensures_bnd_entry [OF p7_material_ok])
  apply (simp only: prod.case)
  apply (rule ensures_labeled, assumption)
  apply (simp add: ensures_ret question_ok_def)
  done

lemma gen_part7_ok: "ensures (gen_part7 rt cnt len difficulty genre domain) (block_ok 7 cnt)"
  unfolding gen_part7_def
  by (rule ensures_bnd [OF ensures_for_each [where P = question_ok]])
     (auto intro!: p7_question_ok ensures_ret simp: block_ok_def)

lemma gen_parts_ok:
  "ensures (gen_parts rt per_part p7_length difficulty genre domain ps)
     (\<lambda>bs. map part bs = filter (\<lambda>p. p \<in> {5, 6, 7}) ps \<and>
            list_all (\<lambda>b. block_ok (part b) per_part b) bs)"
proof (induction ps)
  case Nil
  then show ?case by (simp add: ensures_ret)
next
  case (Cons p ps)
  have gens: "generators p \<noteq> None" if "p \<in> {5, 6, 7}"
    using that by (auto simp: generators_def)
  show ?case
  proof (cases "p \<in> {5, 6, 7}")
    case False
    with Cons.IH show ?thesis by simp
  next
    case True
    have disp: "ensures (if p = 7 then
               gen_part7 rt per_part
                 (case p7_length of None \<Rightarrow> ''short'' | Some l \<Rightarrow> if l = [] then ''short'' else l)
                 difficulty genre domain
             else if p = 6 then gen_part6 rt per_part difficulty genre domain
             else gen_part5 rt per_part difficulty genre domain) (block_ok p per_part)"
      using True by (auto intro: gen_part5_ok gen_part6_ok gen_part7_ok)
    show ?thesis
      using True gens
      apply (simp only: gen_parts.simps if_True simp_thms)
      apply (rule ensures_bnd [OF disp])
      apply (rule ensures_bnd [OF Cons.IH])
      apply (rule ensures_ret)
      apply (auto simp: block_ok_def)
      done
  qed
qed

section \<open>The dataset assembler\<close>

lemma generate_dataset_result:
  "\<exists>bs s'. gen_parts rt per_part p7_length difficulty genre domain (part_list_of part_arg)
             (case seed of Some k \<Rightarrow> seeded rt k | None \<Rightarrow> entropy e) = Inr (bs, s') \<and>
          map part bs = filter (\<lambda>p. p \<in> {5, 6, 7}) (part_list_of part_arg) \<and>
          list_all (\<lambda>b. block_ok (part b) per_part b) bs \<and>
          generate_dataset rt e ttl per_part part_arg seed p7_length difficulty genre domain =
            Inr \<lparr>title = ttl, version = ''1.0.0'', language = ''en'', explanationsLanguage = ''ja'',
                 createdAt = today e, parts = bs, metadata_noteJa = [Ja ''metadata_note'']\<rparr>"
proof -
  let ?rng = "case seed of Some k \<Rightarrow> seeded rt k | None \<Rightarrow> entropy e"
  from ensuresD [OF gen_parts_ok, of rt per_part p7_length difficulty genre domain "part_list_of part_arg" ?rng]
  obtain bs s' where
    g: "gen_parts rt per_part p7_length difficulty genre domain (part_list_of part_arg) ?rng = Inr (bs, s')"
    and p: "map part bs = filter (\<lambda>p. p \<in> {5, 6, 7}) (part_list_of part_arg)"
           "list_all (\<lambda>b. block_ok (part b) per_part b) bs"
    by blast
  have "generate_dataset rt e ttl per_part part_arg seed p7_length difficulty genre domain =
            Inr \<lparr>title = ttl, version = ''1.0.0'', language = ''en'', explanationsLanguage = ''ja'',
                 createdAt = today e, parts = bs, metadata_noteJa = [Ja ''metadata_note'']\<rparr>"
    using g by (simp add: generate_dataset_def part_list_of_def Let_def)
  with g p show ?thesis by blast
qed

text \<open>
  C7 (amended). For every part list passed to \<open>generate_dataset\<close>, also one with numbers
  outside 5, 6, 7, the call raises no exception. For a non-empty list the blocks returned
  are exactly those of the requested numbers that lie in 5, 6, 7, in the order of the
  request; an empty list is treated like an absent one, and with the default list the
  blocks are those of parts 5, 6, 7, so no block for parts 1 to 4 is ever emitted.
\<close>

theorem generate_dataset_supported_parts:
  "(\<exists>d. generate_dataset rt e ttl per_part (Some part_list) seed p7_length difficulty genre domain = Inr d \<and>
        map part (parts d) =
          filter (\<lambda>p. p \<in> {5, 6, 7}) (if part_list = [] then [5, 6, 7] else part_list)) \<and>
   (\<exists>d. generate_dataset rt e ttl per_part None seed p7_length difficulty genre domain = Inr d \<and>
        map part (parts d) = [5, 6, 7])"
proof -
  from generate_dataset_result [of rt per_part p7_length difficulty genre domain "Some part_list" e seed ttl]
  have a: "\<exists>d. generate_dataset rt e ttl per_part (Some part_list) seed p7_length difficulty genre domain = Inr d \<and>
        map part (parts d) =
          filter (\<lambda>p. p \<in> {5, 6, 7}) (if part_list = [] then [5, 6, 7] else part_list)"
    by (auto simp: part_list_of_def)
  from generate_dataset_result [of rt per_part p7_length difficulty genre domain None e seed ttl]
  have b: "\<exists>d. generate_dataset rt e ttl per_part None seed p7_length difficulty genre domain = Inr d \<and>
        map part (parts d) = [5, 6, 7]"
    by (auto simp: part_list_of_def)
  from a b show ?thesis by blast
qed

theorem generate_dataset_supported_parts_witness:
  "(\<exists>d. generate_dataset lcg \<lparr>today = ''2025-11-01'', entropy = 0\<rparr> ''T'' 1 (Some [2, 5]) (Some 42)
          None None None None = Inr d \<and>
        map part (parts d) = filter (\<lambda>p. p \<in> {5, 6, 7}) (if [2, 5 :: int] = [] then [5, 6, 7] else [2, 5])) \<and>
   (\<exists>d. generate_dataset lcg \<lparr>today = ''2025-11-01'', entropy = 0\<rparr> ''T'' 1 None (Some 42)
          None None None None = Inr d \<and>
        map part (parts d) = [5, 6, 7])"
  by (rule generate_dataset_supported_parts)

text \<open>The claim as stated fails for the empty part list: nothing is requested, and the
  blocks of parts 5, 6, 7 are returned.\<close>

theorem generate_dataset_empty_list_counterexample:
  "map_sum id (\<lambda>d. map part (parts d))
     (generate_dataset lcg \<lparr>today = ''2025-11-01'', entropy = 0\<rparr> ''T'' 1 (Some []) (Some 42)
        None None None None) = Inr [5, 6, 7]"
proof -
  from generate_dataset_result [of lcg 1 None None None None "Some []"
      "\<lparr>today = ''2025-11-01'', entropy = 0\<rparr>" "Some 42" "''T''"]
  show ?thesis by (auto simp: part_list_of_def)
qed

text \<open>
  C1 (amended). For every explicit integer seed, part list, per-part count and hints, the
  call returns a dataset, and the dataset depends on the environment of the call only
  through \<open>createdAt\<close>, which is the date of the call: a second call with identical
  arguments returns the same dataset with \<open>createdAt\<close> set to the date of the second call,
  hence the identical dataset when both calls are made on the same date.
\<close>

theorem generate_dataset_deterministic:
  "\<exists>d. generate_dataset rt e1 ttl per_part part_arg (Some k) p7_length difficulty genre domain = Inr d \<and>
       createdAt d = today e1 \<and>
       generate_dataset rt e2 ttl per_part part_arg (Some k) p7_length difficulty genre domain =
         Inr (d\<lparr>createdAt := today e2\<rparr>)"
proof -
  from generate_dataset_result [of rt per_part p7_length difficulty genre domain part_arg e1 "Some k" ttl]
       generate_dataset_result [of rt per_part p7_length difficulty genre domain part_arg e2 "Some k" ttl]
  show ?thesis by auto
qed

theorem generate_dataset_deterministic_witness:
  "\<exists>d. generate_dataset lcg \<lparr>today = ''2025-11-01'', entropy = 0\<rparr> ''TOEIC Mock Test - Generated'' 3
         None (Some 20251101) None None None None = Inr d \<and>
       createdAt d = today \<lparr>today = ''2025-11-01'', entropy = (0::nat)\<rparr> \<and>
       generate_dataset lcg \<lparr>today = ''2025-11-01'', entropy = 7\<rparr> ''TOEIC Mock Test - Generated'' 3
         None (Some 20251101) None None None None =
         Inr (d\<lparr>createdAt := today \<lparr>today = ''2025-11-01'', entropy = (7::nat)\<rparr>\<rparr>)"
  by (rule generate_dataset_deterministic)

text \<open>The claim as stated fails: the same arguments on two different days give two
  datasets, which differ in \<open>createdAt\<close>.\<close>

theorem generate_dataset_date_counterexample:
  "generate_dataset lcg \<lparr>today = ''2025-11-01'', entropy = 0\<rparr> ''TOEIC Mock Test - Generated'' 3 None
     (Some 20251101) None None None None \<noteq>
   generate_dataset lcg \<lparr>today = ''2025-11-02'', entropy = 0\<rparr> ''TOEIC Mock Test - Generated'' 3 None
     (Some 20251101) None None None None"
proof -
  from generate_dataset_result [of lcg 3 None None None None None
      "\<lparr>today = ''2025-11-01'', entropy = 0\<rparr>" "Some 20251101" "''TOEIC Mock Test - Generated''"]
       generate_dataset_result [of lcg 3 None None None None None
      "\<lparr>today = ''2025-11-02'', entropy = 0\<rparr>" "Some 20251101" "''TOEIC Mock Test - Generated''"]
  show ?thesis by auto
qed

end
